theory Spec2Isabelle
  imports Complex_Main "HOL-Library.AList" "HOL-Library.Multiset"
begin

section \<open>Data model\<close>

text \<open>
  The simulation engine is the TypeScript module with \<open>syncMonteCarlo\<close> and
  \<open>parallelMonteCarlo\<close>. JavaScript numbers are modelled as follows: counts and
  years (\<open>numYears\<close>, \<open>numRuns\<close>, \<open>startYear\<close>) are integers, the amounts of the
  input and the draws of the random generator are reals. A value that the code
  computes or reads from an array is a \<open>jsnum\<close>: a real number, plus or minus
  \<open>Infinity\<close>, \<open>NaN\<close>, or \<open>undefined\<close>. Arithmetic on real numbers is exact: the
  rounding and the overflow of IEEE doubles are outside the model, and zero is the
  positive zero, so a non-zero number divided by zero is the infinity of its sign
  and zero divided by zero is \<open>NaN\<close>.

  Project objects are compared by identity in \<open>calculateRequiredAmount\<close>
  (\<open>otherProject === project\<close>), so a project is a reference into a store and an array
  of projects is a list of references. No function of the module writes to a project,
  so the store is a parameter and is never returned.

  \<open>Array.prototype.sort\<close> is taken to be stable, as ECMAScript 2019 requires. It
  sorts the array it is called on, so a function that sorts an array which its
  caller can still reach returns the new contents of that array with its result.
  Where the comparator is not consistent (a row that holds \<open>NaN\<close> next to
  different numbers) ECMAScript leaves the order to the engine; there the engine's
  choice is a parameter \<open>engineSort\<close>.
  A thrown exception is the left summand of a sum type; a function with a loop that
  nothing bounds returns an option, \<open>None\<close> standing for a call that never returns.
\<close>

datatype error = TypeError | RangeError

datatype jsnum = Num real | PosInfinity | NegInfinity | NaN | Undefined

type_synonym ref = nat

record IProject =
  startYear :: int
  totalAmount :: real

type_synonym store = "ref \<Rightarrow> IProject"

record ISubBucket =
  sb_group :: string
  sb_max :: jsnum
  sb_min :: jsnum

record IBucket =
  b_max :: jsnum
  b_min :: jsnum
  subBuckets :: "(string \<times> ISubBucket) list"

record IGroup =
  g_description :: string
  g_from :: jsnum
  g_name :: string
  g_percentage :: real
  g_separator :: bool
  g_to :: jsnum

record ITwoThird =
  tt_max :: jsnum
  tt_min :: jsnum

record IProjectResult =
  r_buckets :: "IBucket list"
  r_groups :: "IGroup list"
  r_max :: jsnum
  r_median :: jsnum
  r_min :: jsnum
  r_project :: ref
  r_twoThird :: ITwoThird

record IMonteCarloEnvironment =
  env_investmentAmount :: real
  env_liquidity :: real
  noInterestReferenceLine :: "real list"
  env_numRuns :: int
  env_numYears :: int
  projectsByStartYear :: "int \<rightharpoonup> ref list"
  simulatedValues :: "jsnum list list"

text \<open>
  The caller's options object: every property may be absent (\<open>None\<close>). The
  TypeScript interface marks \<open>volatility\<close> as mandatory, but the parameter of
  \<open>initializeOptions\<close> is itself optional and types are erased at run time, so an
  absent \<open>volatility\<close> is an input the function receives.
\<close>

record IMonteCarloSimulationOptions =
  o_numYears :: "int option"
  o_numRuns :: "int option"
  o_projects :: "ref list option"
  o_investmentAmount :: "real option"
  o_performance :: "real option"
  o_seed :: "real option"
  o_volatility :: "real option"
  o_liquidity :: "real option"

record IInitializedMonteCarloSimulationOptions =
  numYears :: int
  numRuns :: int
  projects :: "ref list"
  investmentAmount :: real
  performance :: real
  seed :: "real option"
  taskIndex :: "nat option"
  valuesPerWorker :: "nat option"
  liquidity :: real
  volatility :: real

section \<open>Options initialization\<close>

text \<open>
  \<open>Object.assign({}, defaults, options)\<close>: a property of \<open>options\<close> overrides the
  default, an absent property (or an absent \<open>options\<close>) leaves the default.
\<close>

fun orDefault :: "'a \<Rightarrow> 'a option \<Rightarrow> 'a" where
  "orDefault d None = d"
| "orDefault d (Some v) = v"

definition initializeOptions ::
  "IMonteCarloSimulationOptions option \<Rightarrow> IInitializedMonteCarloSimulationOptions" where
  "initializeOptions options =
     \<lparr> numYears = orDefault 10 (Option.bind options o_numYears),
       numRuns = orDefault 10000 (Option.bind options o_numRuns),
       projects = orDefault [] (Option.bind options o_projects),
       investmentAmount = orDefault 1000000 (Option.bind options o_investmentAmount),
       performance = orDefault 0 (Option.bind options o_performance),
       seed = Option.bind options o_seed,
       taskIndex = None,
       valuesPerWorker = None,
       liquidity = orDefault 10000 (Option.bind options o_liquidity),
       volatility = orDefault (1 / 100) (Option.bind options o_volatility) \<rparr>"

section \<open>Schedule builder\<close>

text \<open>
  Modelled from the spec: lodash's \<open>groupBy\<close> is an external library that is not
  part of the sources. The spec describes it as a stable grouping utility: it groups a
  sequence by a key function, preserving insertion order within each group. A key
  that no element has is absent from the resulting dictionary. Keys are the strings
  of the start years; integers stand for them here.
\<close>

definition groupBy :: "'a list \<Rightarrow> ('a \<Rightarrow> 'k) \<Rightarrow> ('k \<rightharpoonup> 'a list)" where
  "groupBy xs key =
     foldl (\<lambda>m x. m(key x \<mapsto> (case m (key x) of None \<Rightarrow> [x] | Some ys \<Rightarrow> ys @ [x])))
       Map.empty xs"

text \<open>
  \<open>projectsToCashFlows\<close>: one entry per year \<open>0 .. numYears - 1\<close>; the entry is the
  negated left-to-right sum (\<open>reduce\<close> from 0) of the amounts of that year's projects,
  with \<open>projectsByStartYear[year] || []\<close> for a year without projects.
\<close>

definition projectsToCashFlows :: "store \<Rightarrow> (int \<rightharpoonup> ref list) \<Rightarrow> int \<Rightarrow> real list" where
  "projectsToCashFlows h byStartYear n =
     map (\<lambda>year.
            let projectsByThisYear =
                  (case byStartYear (int year) of None \<Rightarrow> [] | Some ps \<Rightarrow> ps)
            in - foldl (\<lambda>memo project. memo + totalAmount (h project)) 0 projectsByThisYear)
         [0..<nat n]"

text \<open>
  \<open>calculateNoInterestReferenceLine\<close>: the loop over the years carries
  \<open>investmentAmountLeft\<close>. It reads \<open>cashFlows[year]\<close> for \<open>year < numYears\<close>; at its
  only call site \<open>cashFlows\<close> has exactly \<open>numYears\<close> entries (lemma
  \<open>length_projectsToCashFlows\<close>), so the read is in range.
\<close>

fun referenceLineLoop :: "real list \<Rightarrow> real \<Rightarrow> nat list \<Rightarrow> real list" where
  "referenceLineLoop cashFlows investmentAmountLeft [] = []"
| "referenceLineLoop cashFlows investmentAmountLeft (year # years) =
     (let left = investmentAmountLeft + cashFlows ! year
      in left # referenceLineLoop cashFlows left years)"

definition calculateNoInterestReferenceLine :: "real list \<Rightarrow> real \<Rightarrow> int \<Rightarrow> real list" where
  "calculateNoInterestReferenceLine cashFlows amount n =
     referenceLineLoop cashFlows amount [0..<nat n]"

section \<open>Path simulator\<close>

text \<open>
  Sum, product and quotient of JavaScript numbers; \<open>undefined\<close> converts to
  \<open>NaN\<close>, and an operation with \<open>NaN\<close> is \<open>NaN\<close>.
\<close>

fun js_add :: "jsnum \<Rightarrow> jsnum \<Rightarrow> jsnum" where
  "js_add (Num a) (Num b) = Num (a + b)"
| "js_add (Num a) PosInfinity = PosInfinity"
| "js_add (Num a) NegInfinity = NegInfinity"
| "js_add PosInfinity (Num b) = PosInfinity"
| "js_add PosInfinity PosInfinity = PosInfinity"
| "js_add NegInfinity (Num b) = NegInfinity"
| "js_add NegInfinity NegInfinity = NegInfinity"
| "js_add _ _ = NaN"

fun js_mul :: "jsnum \<Rightarrow> jsnum \<Rightarrow> jsnum" where
  "js_mul (Num a) (Num b) = Num (a * b)"
| "js_mul (Num a) PosInfinity =
     (if a = 0 then NaN else if 0 < a then PosInfinity else NegInfinity)"
| "js_mul (Num a) NegInfinity =
     (if a = 0 then NaN else if 0 < a then NegInfinity else PosInfinity)"
| "js_mul PosInfinity (Num b) =
     (if b = 0 then NaN else if 0 < b then PosInfinity else NegInfinity)"
| "js_mul NegInfinity (Num b) =
     (if b = 0 then NaN else if 0 < b then NegInfinity else PosInfinity)"
| "js_mul PosInfinity PosInfinity = PosInfinity"
| "js_mul PosInfinity NegInfinity = NegInfinity"
| "js_mul NegInfinity PosInfinity = NegInfinity"
| "js_mul NegInfinity NegInfinity = PosInfinity"
| "js_mul _ _ = NaN"

fun js_div :: "jsnum \<Rightarrow> jsnum \<Rightarrow> jsnum" where
  "js_div (Num a) (Num b) =
     (if b \<noteq> 0 then Num (a / b)
      else if a = 0 then NaN else if 0 < a then PosInfinity else NegInfinity)"
| "js_div (Num a) PosInfinity = Num 0"
| "js_div (Num a) NegInfinity = Num 0"
| "js_div PosInfinity (Num b) = (if 0 \<le> b then PosInfinity else NegInfinity)"
| "js_div NegInfinity (Num b) = (if 0 \<le> b then NegInfinity else PosInfinity)"
| "js_div _ _ = NaN"

text \<open>\<open>Math.round\<close> rounds to the nearest integer, a tie towards plus infinity.\<close>

definition Math_round :: "real \<Rightarrow> int" where
  "Math_round x = \<lfloor>x + 1 / 2\<rfloor>"

fun js_round :: "jsnum \<Rightarrow> jsnum" where
  "js_round (Num a) = Num (real_of_int (Math_round a))"
| "js_round PosInfinity = PosInfinity"
| "js_round NegInfinity = NegInfinity"
| "js_round _ = NaN"

text \<open>Reading a JavaScript array outside its bounds yields \<open>undefined\<close>.\<close>

definition arrayAt :: "jsnum list \<Rightarrow> int \<Rightarrow> jsnum" where
  "arrayAt xs i = (if 0 \<le> i \<and> i < int (length xs) then xs ! nat i else Undefined)"

text \<open>
  \<open>toAbsoluteIndices\<close> overwrites \<open>indices\<close> in place, position by position, and
  returns it. Every position is read (as the relative index of its year) before
  it is written; \<open>cashFlows[relativeYear - 1]\<close> is \<open>undefined\<close> when \<open>cashFlows\<close>
  is too short. The quotient of two indices is \<open>NaN\<close> or infinite when the
  previous index is zero.
\<close>

fun toAbsoluteLoop ::
  "real list \<Rightarrow> jsnum \<Rightarrow> jsnum \<Rightarrow> jsnum list \<Rightarrow> nat list \<Rightarrow> jsnum list" where
  "toAbsoluteLoop cashFlows currentPortfolioValue previousYearIndex indices [] = indices"
| "toAbsoluteLoop cashFlows currentPortfolioValue previousYearIndex indices (relativeYear # rest) =
     (let currentYearIndex = indices ! relativeYear;
          cashFlowStartOfYear =
            (if relativeYear = 0 then Num 0
             else arrayAt (map Num cashFlows) (int relativeYear - 1));
          perf = js_div currentYearIndex previousYearIndex;
          val = js_mul (js_add currentPortfolioValue cashFlowStartOfYear) perf
      in toAbsoluteLoop cashFlows val currentYearIndex
           (indices[relativeYear := js_round val]) rest)"

definition toAbsoluteIndices :: "jsnum list \<Rightarrow> real \<Rightarrow> real list \<Rightarrow> jsnum list" where
  "toAbsoluteIndices indices amount cashFlows =
     toAbsoluteLoop cashFlows (Num amount) (Num 100) indices [0..<length indices]"

text \<open>
  The random generator (\<open>simjs-random\<close>, seeded with 10) is an external library; it is
  a parameter \<open>normal\<close>: \<open>normal k mean sd\<close> is the result of the \<open>k\<close>-th call of
  \<open>random.normal(mean, sd)\<close> after seeding. Run \<open>run\<close> makes the calls
  \<open>run * numYears .. run * numYears + numYears - 1\<close>. The relative indices of a
  run are real numbers; \<open>toAbsoluteIndices\<close> turns the array into absolute values.
\<close>

fun relativeLoop :: "(nat \<Rightarrow> real) \<Rightarrow> real list \<Rightarrow> nat list \<Rightarrow> real list" where
  "relativeLoop draw indices [] = indices"
| "relativeLoop draw indices (i # rest) =
     (let randomPerformance = 1 + draw i
      in relativeLoop draw (indices @ [indices ! (i - 1) * randomPerformance]) rest)"

definition simulateRun ::
  "(nat \<Rightarrow> real \<Rightarrow> real \<Rightarrow> real) \<Rightarrow> real list \<Rightarrow> real \<Rightarrow>
   IInitializedMonteCarloSimulationOptions \<Rightarrow> nat \<Rightarrow> jsnum list" where
  "simulateRun normal cashFlows amount options run =
     (let n = nat (numYears options);
          indices = relativeLoop
                      (\<lambda>i. normal (run * n + (i - 1)) (performance options) (volatility options))
                      [100] [1..<n + 1]
      in toAbsoluteIndices (map Num indices) amount cashFlows)"

text \<open>
  \<open>new Array(n)\<close> throws a RangeError unless \<open>n\<close> is an integer with
  \<open>0 \<le> n < 2^32\<close>. \<open>simulateOutcomes\<close> first builds \<open>new Array(numYears)\<close> and the
  rows \<open>new Array(numRuns)\<close> for the years \<open>0 .. numYears\<close> (the assignment to
  \<open>result[numYears]\<close> extends the array by one), then stores the path of every run
  column by column: \<open>result[year][run] = indices[year]\<close>, every cell exactly once.
\<close>

definition validArrayLength :: "int \<Rightarrow> bool" where
  "validArrayLength n = (0 \<le> n \<and> n < 2 ^ 32)"

definition simulateOutcomes ::
  "(nat \<Rightarrow> real \<Rightarrow> real \<Rightarrow> real) \<Rightarrow> real list \<Rightarrow> real \<Rightarrow>
   IInitializedMonteCarloSimulationOptions \<Rightarrow> error + jsnum list list" where
  "simulateOutcomes normal cashFlows amount options =
     (if \<not> validArrayLength (numYears options) then Inl RangeError
      else if \<not> validArrayLength (numRuns options) then Inl RangeError
      else
        let paths = map (simulateRun normal cashFlows amount options)
                      [0..<nat (numRuns options)]
        in Inr (map (\<lambda>year. map (\<lambda>indices. indices ! year) paths)
                  [0..<nat (numYears options) + 1]))"

section \<open>Environment assembly\<close>

text \<open>
  \<open>options.projects.sort(...)\<close> sorts the array in place (a stable sort by
  \<open>startYear\<close>) and returns the same array. Without a partition,
  \<open>projectsToSimulate\<close> is that same array; with one it is a copy
  (\<open>slice\<close>) taken before the sort. The function returns the environment together
  with the contents of the \<open>options.projects\<close> array after the call.
\<close>

definition createMonteCarloEnvironment ::
  "(nat \<Rightarrow> real \<Rightarrow> real \<Rightarrow> real) \<Rightarrow> store \<Rightarrow> IInitializedMonteCarloSimulationOptions \<Rightarrow>
   error + (IMonteCarloEnvironment \<times> ref list)" where
  "createMonteCarloEnvironment normal h options =
     (let sorted = sort_key (\<lambda>p. startYear (h p)) (projects options);
          projectsToSimulate =
            (case (taskIndex options, valuesPerWorker options) of
               (Some t, Some v) \<Rightarrow>
                 if t \<noteq> 0 \<and> v \<noteq> 0
                 then take ((t + 1) * v - t * v) (drop (t * v) (projects options))
                 else sorted
             | _ \<Rightarrow> sorted);
          byStartYear = groupBy sorted (\<lambda>p. startYear (h p));
          cashFlows = projectsToCashFlows h byStartYear (numYears options);
          referenceLine =
            calculateNoInterestReferenceLine cashFlows (investmentAmount options) (numYears options);
          maxYear = foldl (\<lambda>memo project. max memo (startYear (h project))) 0 projectsToSimulate
      in case simulateOutcomes normal cashFlows (investmentAmount options) options of
           Inl e \<Rightarrow> Inl e
         | Inr values \<Rightarrow>
             Inr (\<lparr> env_investmentAmount = investmentAmount options,
                    env_liquidity = liquidity options,
                    noInterestReferenceLine = referenceLine,
                    env_numRuns = numRuns options,
                    env_numYears = maxYear,
                    projectsByStartYear = byStartYear,
                    simulatedValues = values \<rparr>, sorted))"

section \<open>Project aggregator\<close>

text \<open>
  A comparison with \<open>undefined\<close> or \<open>NaN\<close> is false; \<open>Math.min\<close> and \<open>Math.max\<close>
  with such an argument are \<open>NaN\<close>.
\<close>

fun js_le :: "jsnum \<Rightarrow> jsnum \<Rightarrow> bool" where
  "js_le (Num a) (Num b) = (a \<le> b)"
| "js_le (Num a) PosInfinity = True"
| "js_le NegInfinity (Num b) = True"
| "js_le NegInfinity NegInfinity = True"
| "js_le NegInfinity PosInfinity = True"
| "js_le PosInfinity PosInfinity = True"
| "js_le _ _ = False"

fun js_gt :: "jsnum \<Rightarrow> jsnum \<Rightarrow> bool" where
  "js_gt (Num a) (Num b) = (a > b)"
| "js_gt (Num a) NegInfinity = True"
| "js_gt PosInfinity (Num b) = True"
| "js_gt PosInfinity NegInfinity = True"
| "js_gt _ _ = False"

fun Math_min :: "jsnum \<Rightarrow> jsnum \<Rightarrow> jsnum" where
  "Math_min (Num a) (Num b) = Num (min a b)"
| "Math_min (Num a) PosInfinity = Num a"
| "Math_min PosInfinity (Num b) = Num b"
| "Math_min PosInfinity PosInfinity = PosInfinity"
| "Math_min (Num a) NegInfinity = NegInfinity"
| "Math_min PosInfinity NegInfinity = NegInfinity"
| "Math_min NegInfinity (Num b) = NegInfinity"
| "Math_min NegInfinity PosInfinity = NegInfinity"
| "Math_min NegInfinity NegInfinity = NegInfinity"
| "Math_min _ _ = NaN"

fun Math_max :: "jsnum \<Rightarrow> jsnum \<Rightarrow> jsnum" where
  "Math_max (Num a) (Num b) = Num (max a b)"
| "Math_max (Num a) NegInfinity = Num a"
| "Math_max NegInfinity (Num b) = Num b"
| "Math_max NegInfinity NegInfinity = NegInfinity"
| "Math_max (Num a) PosInfinity = PosInfinity"
| "Math_max NegInfinity PosInfinity = PosInfinity"
| "Math_max PosInfinity (Num b) = PosInfinity"
| "Math_max PosInfinity NegInfinity = PosInfinity"
| "Math_max PosInfinity PosInfinity = PosInfinity"
| "Math_max _ _ = NaN"

definition js_mean :: "jsnum \<Rightarrow> jsnum \<Rightarrow> jsnum" where
  "js_mean a b = js_div (js_add a b) (Num 2)"

text \<open>
  \<open>values.sort((a, b) => a - b)\<close>. Without \<open>NaN\<close> the comparator is consistent and
  the result is the ascending order: the negative infinities, the real numbers in
  order, the positive infinities, and every \<open>undefined\<close> last. A difference that is
  \<open>NaN\<close> counts as 0, so with \<open>NaN\<close> in the array the comparator is consistent only
  when all other numbers are equal, and the stable sort then leaves them as they
  are. Otherwise the order is the engine's: \<open>engineSort\<close> proposes it, and it counts
  whenever it rearranges the elements and nothing else.
\<close>

fun numbersOf :: "jsnum list \<Rightarrow> real list" where
  "numbersOf [] = []"
| "numbersOf (Num a # xs) = a # numbersOf xs"
| "numbersOf (x # xs) = numbersOf xs"

definition sortNumbers :: "(jsnum list \<Rightarrow> jsnum list) \<Rightarrow> jsnum list \<Rightarrow> jsnum list" where
  "sortNumbers engineSort xs =
     (if NaN \<notin> set xs then
        filter (\<lambda>x. x = NegInfinity) xs @ map Num (sort (numbersOf xs)) @
        filter (\<lambda>x. x = PosInfinity) xs @ filter (\<lambda>x. x = Undefined) xs
      else
        let ys = filter (\<lambda>x. x \<noteq> Undefined) xs
        in (if list_all (\<lambda>a. list_all (\<lambda>b. a = NaN \<or> b = NaN \<or> a = b) ys) ys then ys
            else if mset (engineSort ys) = mset ys then engineSort ys
            else ys) @
           filter (\<lambda>x. x = Undefined) xs)"

text \<open>\<open>Number.MAX_VALUE\<close> and \<open>Number.MIN_VALUE\<close> (the smallest positive double).\<close>

definition Number_MAX_VALUE :: real where
  "Number_MAX_VALUE = 2 ^ 1024 - 2 ^ 971"

definition Number_MIN_VALUE :: real where
  "Number_MIN_VALUE = 1 / 2 ^ 1074"

text \<open>
  \<open>groupForValue\<close>: the first group, in array order, whose bounds admit the value;
  \<open>None\<close> is the \<open>undefined\<close> that \<open>find\<close> returns when no group does.
\<close>

definition inBand :: "jsnum \<Rightarrow> IGroup \<Rightarrow> bool" where
  "inBand v grp =
     ((g_from grp = Undefined \<or> js_le (g_from grp) v) \<and>
      (g_to grp = Undefined \<or> js_gt (g_to grp) v))"

definition groupForValue :: "jsnum \<Rightarrow> IGroup list \<Rightarrow> IGroup option" where
  "groupForValue v groups = find (inBand v) groups"

text \<open>
  \<open>createGroups\<close>. The reference value is \<open>noInterestReferenceLine[startYear]\<close>, which
  is \<open>undefined\<close> when the start year is not below the number of years. The
  description of the yellow group has the letter U+00E4.
\<close>

definition createGroups :: "real \<Rightarrow> jsnum \<Rightarrow> real \<Rightarrow> IGroup list" where
  "createGroups requiredAmount noInterestReference liq =
     [ \<lparr> g_description = ''Ziel erreichbar'', g_from = Num requiredAmount,
         g_name = ''green'', g_percentage = 0, g_separator = True, g_to = Undefined \<rparr>,
       \<lparr> g_description = ''mit Zusatzliquidit'' @ [char_of (228 :: nat)] @ ''t erreichbar'',
         g_from = Num (requiredAmount - liq),
         g_name = ''yellow'', g_percentage = 0, g_separator = True, g_to = Num requiredAmount \<rparr>,
       \<lparr> g_description = ''nicht erreichbar'', g_from = noInterestReference,
         g_name = ''gray'', g_percentage = 0, g_separator = False,
         g_to = Num (requiredAmount - liq) \<rparr>,
       \<lparr> g_description = ''nicht erreichbar, mit Verlust'', g_from = Undefined,
         g_name = ''red'', g_percentage = 0, g_separator = False, g_to = noInterestReference \<rparr> ]"

text \<open>
  \<open>calculateRequiredAmount\<close>: \<open>for ... of\<close> over an absent dictionary entry throws a
  TypeError; the loop stops at the project itself, found by identity.
\<close>

fun requiredAmountLoop :: "store \<Rightarrow> ref \<Rightarrow> real \<Rightarrow> ref list \<Rightarrow> real" where
  "requiredAmountLoop h project amount [] = amount"
| "requiredAmountLoop h project amount (otherProject # rest) =
     (if otherProject = project then amount
      else requiredAmountLoop h project (amount + totalAmount (h otherProject)) rest)"

definition calculateRequiredAmount :: "store \<Rightarrow> ref \<Rightarrow> (int \<rightharpoonup> ref list) \<Rightarrow> error + real" where
  "calculateRequiredAmount h project byStartYear =
     (case byStartYear (startYear (h project)) of
        None \<Rightarrow> Inl TypeError
      | Some projectsSameYear \<Rightarrow>
          Inr (requiredAmountLoop h project (totalAmount (h project)) projectsSameYear))"

definition median :: "jsnum list \<Rightarrow> jsnum" where
  "median vs =
     (let half = int (length vs) div 2
      in if length vs mod 2 \<noteq> 0 then arrayAt vs half
         else js_mean (arrayAt vs (half - 1)) (arrayAt vs half))"

text \<open>
  The body of the inner loop of \<open>calculateProject\<close> for one index \<open>j\<close>. The state is
  the bucket under construction and the counter dictionary \<open>valuesByGroup\<close> (an
  absent counter reads as 0: \<open>valuesByGroup[name] || 0\<close>). When no group admits
  the value, \<open>group.name\<close> throws a TypeError.
\<close>

definition bucketStep ::
  "jsnum list \<Rightarrow> IGroup list \<Rightarrow> IBucket \<times> (string \<Rightarrow> nat) \<Rightarrow> nat \<Rightarrow>
   error + IBucket \<times> (string \<Rightarrow> nat)" where
  "bucketStep vs groups st j =
     (let bucket = fst st; valuesByGroup = snd st;
          v = arrayAt vs (int j);
          bucket1 = bucket\<lparr> b_min := Math_min (b_min bucket) v, b_max := Math_max (b_max bucket) v \<rparr>
      in case groupForValue v groups of
           None \<Rightarrow> Inl TypeError
         | Some grp \<Rightarrow>
             let counts = valuesByGroup(g_name grp := valuesByGroup (g_name grp) + 1);
                 subBucket =
                   (case map_of (subBuckets bucket1) (g_name grp) of
                      Some sb \<Rightarrow> sb
                    | None \<Rightarrow> \<lparr> sb_group = g_name grp, sb_max = Num Number_MIN_VALUE,
                                sb_min = Num Number_MAX_VALUE \<rparr>);
                 subBucket1 = subBucket\<lparr> sb_min := Math_min (sb_min subBucket) v,
                                         sb_max := Math_max (sb_max subBucket) v \<rparr>
             in Inr (bucket1\<lparr> subBuckets :=
                                AList.update (g_name grp) subBucket1 (subBuckets bucket1) \<rparr>,
                     counts))"

fun bucketInner ::
  "jsnum list \<Rightarrow> IGroup list \<Rightarrow> nat list \<Rightarrow> IBucket \<times> (string \<Rightarrow> nat) \<Rightarrow>
   error + IBucket \<times> (string \<Rightarrow> nat)" where
  "bucketInner vs groups [] st = Inr st"
| "bucketInner vs groups (j # js) st =
     (case bucketStep vs groups st j of
        Inl e \<Rightarrow> Inl e
      | Inr st1 \<Rightarrow> bucketInner vs groups js st1)"

text \<open>
  The outer loop \<open>for (let i = 0; i < length; i += bucketSize)\<close>. Nothing in the
  source bounds the number of its iterations, so it is a partial function: \<open>None\<close>
  means that the loop never ends.
\<close>

partial_function (option) bucketLoop ::
  "jsnum list \<Rightarrow> IGroup list \<Rightarrow> nat \<Rightarrow> nat \<Rightarrow> (string \<Rightarrow> nat) \<Rightarrow> IBucket list \<Rightarrow>
   (error + IBucket list \<times> (string \<Rightarrow> nat)) option" where
  "bucketLoop vs groups bucketSize i valuesByGroup buckets =
     (if i < length vs then
        (case bucketInner vs groups [i..<i + bucketSize]
                (\<lparr> b_max = Num Number_MIN_VALUE, b_min = Num Number_MAX_VALUE, subBuckets = [] \<rparr>,
                 valuesByGroup) of
           Inl e \<Rightarrow> Some (Inl e)
         | Inr st \<Rightarrow> bucketLoop vs groups bucketSize (i + bucketSize) (snd st) (buckets @ [fst st]))
      else Some (Inr (buckets, valuesByGroup)))"

declare bucketLoop.simps [code]

text \<open>
  \<open>calculateProject\<close> sorts the row \<open>environment.simulatedValues[startYear]\<close> in
  place, so it returns the environment as it is after the call together with the
  result. Sorting an absent row (\<open>undefined.sort\<close>) throws a TypeError. The reference
  value \<open>noInterestReferenceLine[startYear]\<close> is \<open>undefined\<close> beyond the line's end.
\<close>

definition calculateProject ::
  "(jsnum list \<Rightarrow> jsnum list) \<Rightarrow> store \<Rightarrow> ref \<Rightarrow> IMonteCarloEnvironment \<Rightarrow>
   (error + IProjectResult \<times> IMonteCarloEnvironment) option" where
  "calculateProject engineSort h project environment =
     (case calculateRequiredAmount h project (projectsByStartYear environment) of
        Inl e \<Rightarrow> Some (Inl e)
      | Inr requiredAmount \<Rightarrow>
          let year = startYear (h project) in
          if year < 0 \<or> int (length (simulatedValues environment)) \<le> year
          then Some (Inl TypeError)
          else
            let simulatedValuesThisYear =
                  sortNumbers engineSort (simulatedValues environment ! nat year);
                environment1 = environment\<lparr> simulatedValues :=
                  (simulatedValues environment)[nat year := simulatedValuesThisYear] \<rparr>;
                groups = createGroups requiredAmount
                           (arrayAt (map Num (noInterestReferenceLine environment)) year)
                           (env_liquidity environment);
                n = length simulatedValuesThisYear;
                bucketSize = nat (Math_round (real n / 10))
            in (case bucketLoop simulatedValuesThisYear groups bucketSize 0 (\<lambda>name. 0) [] of
                 None \<Rightarrow> None
               | Some (Inl e) \<Rightarrow> Some (Inl e)
               | Some (Inr (buckets, valuesByGroup)) \<Rightarrow>
                   let nonEmptyGroups =
                         map (\<lambda>grp. grp\<lparr> g_percentage :=
                                real (valuesByGroup (g_name grp)) / real n \<rparr>)
                           (filter (\<lambda>grp. valuesByGroup (g_name grp) \<noteq> 0) groups);
                       oneSixth = Math_round (real n / 6)
                   in Some (Inr (\<lparr> r_buckets = buckets,
                                   r_groups = nonEmptyGroups,
                                   r_max = arrayAt simulatedValuesThisYear (int n - 1),
                                   r_median = median simulatedValuesThisYear,
                                   r_min = arrayAt simulatedValuesThisYear 0,
                                   r_project = project,
                                   r_twoThird =
                                     \<lparr> tt_max = arrayAt simulatedValuesThisYear (int n - oneSixth),
                                       tt_min = arrayAt simulatedValuesThisYear oneSixth \<rparr> \<rparr>,
                                 environment1))))"

section \<open>Synchronous driver\<close>

text \<open>
  The loop of \<open>syncMonteCarlo\<close> runs over \<open>options.projects\<close>, the caller's own
  array: \<open>Object.assign\<close> copies the reference, so it is the array that
  \<open>createMonteCarloEnvironment\<close> has sorted. An absent \<open>options\<close> or an absent
  \<open>projects\<close> property makes \<open>for ... of\<close> throw a TypeError.
\<close>

fun calculateAll ::
  "(jsnum list \<Rightarrow> jsnum list) \<Rightarrow> store \<Rightarrow> ref list \<Rightarrow> IMonteCarloEnvironment \<Rightarrow>
   IProjectResult list \<Rightarrow> (error + IProjectResult list) option" where
  "calculateAll engineSort h [] environment results = Some (Inr results)"
| "calculateAll engineSort h (project # rest) environment results =
     (case calculateProject engineSort h project environment of
        None \<Rightarrow> None
      | Some (Inl e) \<Rightarrow> Some (Inl e)
      | Some (Inr (r, environment1)) \<Rightarrow>
          calculateAll engineSort h rest environment1 (results @ [r]))"

definition syncMonteCarlo ::
  "(jsnum list \<Rightarrow> jsnum list) \<Rightarrow> (nat \<Rightarrow> real \<Rightarrow> real \<Rightarrow> real) \<Rightarrow> store \<Rightarrow>
   IMonteCarloSimulationOptions option \<Rightarrow> (error + IProjectResult list) option" where
  "syncMonteCarlo engineSort normal h options =
     (case createMonteCarloEnvironment normal h (initializeOptions options) of
        Inl e \<Rightarrow> Some (Inl e)
      | Inr (environment, projectsArray) \<Rightarrow>
          (case Option.bind options o_projects of
             None \<Rightarrow> Some (Inl TypeError)
           | Some ps \<Rightarrow> calculateAll engineSort h projectsArray environment []))"


section \<open>Example inputs\<close>

text \<open>
  Two projects given out of order: project 0 starts in year 1, project 1 in year 0.
  The options ask for two years and five runs and leave every other property,
  \<open>volatility\<close> included, unset. The example generator returns, at its \<open>k\<close>-th
  call, the mean minus \<open>k\<close> standard deviations. The example engine leaves an
  array with an inconsistent comparator as it is.
\<close>

definition exampleEngineSort :: "jsnum list \<Rightarrow> jsnum list" where
  "exampleEngineSort xs = xs"

definition exampleStore :: store where
  "exampleStore =
     (\<lambda>r. if r = 0 then \<lparr> startYear = 1, totalAmount = 30000 \<rparr>
           else \<lparr> startYear = 0, totalAmount = 50000 \<rparr>)"

definition exampleNormal :: "nat \<Rightarrow> real \<Rightarrow> real \<Rightarrow> real" where
  "exampleNormal k mean sd = mean - sd * real k"

definition exampleOptions :: IMonteCarloSimulationOptions where
  "exampleOptions =
     \<lparr> o_numYears = Some 2, o_numRuns = Some 5, o_projects = Some [0, 1],
       o_investmentAmount = None, o_performance = None, o_seed = None,
       o_volatility = None, o_liquidity = None \<rparr>"

definition exampleEnvironment :: IMonteCarloEnvironment where
  "exampleEnvironment =
     \<lparr> env_investmentAmount = 1000000,
       env_liquidity = 10000,
       noInterestReferenceLine = [950000, 920000],
       env_numRuns = 5,
       env_numYears = 1,
       projectsByStartYear = groupBy [1, 0] (\<lambda>p. startYear (exampleStore p)),
       simulatedValues =
         [map Num [1000000, 1000000, 1000000, 1000000, 1000000],
          map Num [950000, 931000, 912000, 893000, 874000],
          map Num [910800, 873970, 837900, 802590, 768040]] \<rparr>"




section \<open>Properties of the schedule builder\<close>

lemma groupBy_snoc:
  "groupBy (xs @ [x]) key =
     (groupBy xs key)(key x \<mapsto> (case groupBy xs key (key x) of None \<Rightarrow> [x] | Some ys \<Rightarrow> ys @ [x]))"
  by (simp add: groupBy_def)

lemma groupBy_apply:
  "groupBy xs key k =
     (if filter (\<lambda>x. key x = k) xs = [] then None else Some (filter (\<lambda>x. key x = k) xs))"
proof (induction xs arbitrary: k rule: rev_induct)
  case Nil
  show ?case by (simp add: groupBy_def)
next
  case (snoc x xs)
  show ?case unfolding groupBy_snoc by (simp add: snoc)
qed

lemma foldl_add_totalAmount:
  "foldl (\<lambda>memo project. memo + totalAmount (h project)) a ps =
     a + sum_list (map (\<lambda>p. totalAmount (h p)) ps)"
  by (induction ps arbitrary: a) simp_all

lemma length_projectsToCashFlows [simp]:
  "length (projectsToCashFlows h byStartYear n) = nat n"
  by (simp add: projectsToCashFlows_def)

lemma nth_projectsToCashFlows:
  assumes "y < nat n"
  shows "projectsToCashFlows h (groupBy ps (\<lambda>p. startYear (h p))) n ! y =
           - sum_list (map (\<lambda>p. totalAmount (h p)) (filter (\<lambda>p. startYear (h p) = int y) ps))"
  using assms by (simp add: projectsToCashFlows_def groupBy_apply foldl_add_totalAmount)

lemma length_referenceLineLoop [simp]:
  "length (referenceLineLoop cashFlows a years) = length years"
  by (induction years arbitrary: a) (simp_all add: Let_def)

lemma nth_referenceLineLoop:
  "i < length years \<Longrightarrow>
     referenceLineLoop cashFlows a years ! i = a + sum_list (map (\<lambda>y. cashFlows ! y) (take (Suc i) years))"
proof (induction years arbitrary: a i)
  case Nil
  then show ?case by simp
next
  case (Cons y years)
  then show ?case by (cases i) (simp_all add: Let_def)
qed

lemma length_calculateNoInterestReferenceLine [simp]:
  "length (calculateNoInterestReferenceLine cashFlows a n) = nat n"
  by (simp add: calculateNoInterestReferenceLine_def)

lemma nth_calculateNoInterestReferenceLine:
  assumes "y < nat n"
  shows "calculateNoInterestReferenceLine cashFlows a n ! y = a + (\<Sum>k\<le>y. cashFlows ! k)"
proof -
  have "take (Suc y) [0..<nat n] = [0..<Suc y]"
    using assms by simp
  moreover have "sum_list (map (\<lambda>k. cashFlows ! k) [0..<Suc y]) = (\<Sum>k\<le>y. cashFlows ! k)"
    by (simp add: sum_list_sum_nth atLeast0AtMost lessThan_Suc_atMost atLeast0LessThan del: upt_Suc)
  ultimately show ?thesis
    using assms by (simp add: calculateNoInterestReferenceLine_def nth_referenceLineLoop del: upt_Suc)
qed


text \<open>
  Claim C5. For every project list (grouped by start year), number of years and
  investment amount, the schedule builder returns one cash flow per year:
  \<open>cashFlows[y]\<close> is the negated sum of \<open>totalAmount\<close> over the projects whose
  \<open>startYear\<close> is \<open>y\<close> (0 when there is none), and \<open>noInterestReferenceLine[y]\<close> is the
  running balance that starts at the investment amount and adds the cash flows of the
  years up to \<open>y\<close>, with no growth applied. One project with start year 0 and amount
  100000 under an investment of 1000000 gives \<open>noInterestReferenceLine[0] = 900000\<close>.
\<close>

theorem C5_schedule_builder:
  assumes "cashFlows = projectsToCashFlows h (groupBy ps (\<lambda>p. startYear (h p))) n"
    and "line = calculateNoInterestReferenceLine cashFlows amount n"
  shows "length cashFlows = nat n \<and> length line = nat n \<and>
         (\<forall>y < nat n.
            cashFlows ! y =
              - sum_list (map (\<lambda>p. totalAmount (h p)) (filter (\<lambda>p. startYear (h p) = int y) ps)) \<and>
            line ! y = amount + (\<Sum>k\<le>y. cashFlows ! k)) \<and>
         (ps = [p] \<and> h p = \<lparr> startYear = 0, totalAmount = 100000 \<rparr> \<and> amount = 1000000 \<and> 0 < n
            \<longrightarrow> line ! 0 = 900000)"
proof -
  have len: "length cashFlows = nat n" "length line = nat n"
    using assms by simp_all
  have cf: "cashFlows ! y =
              - sum_list (map (\<lambda>p. totalAmount (h p)) (filter (\<lambda>p. startYear (h p) = int y) ps))"
    if "y < nat n" for y
    using that assms(1) by (simp add: nth_projectsToCashFlows)
  have ln: "line ! y = amount + (\<Sum>k\<le>y. cashFlows ! k)" if "y < nat n" for y
    using that assms(2) by (simp add: nth_calculateNoInterestReferenceLine)
  have sc: "line ! 0 = 900000"
    if "ps = [p]" "h p = \<lparr> startYear = 0, totalAmount = 100000 \<rparr>" "amount = 1000000" "0 < n"
  proof -
    have "0 < nat n" using that(4) by simp
    then show ?thesis using ln [of 0] cf [of 0] that by simp
  qed
  show ?thesis using len cf ln sc by blast
qed

theorem C5_schedule_builder_witness:
  "calculateNoInterestReferenceLine
     (projectsToCashFlows (\<lambda>r. \<lparr> startYear = 0, totalAmount = 100000 \<rparr>)
        (groupBy [0] (\<lambda>p. startYear ((\<lambda>r. \<lparr> startYear = 0, totalAmount = 100000 \<rparr>) p))) 1)
     1000000 1 ! 0 = 900000 \<and>
   projectsToCashFlows (\<lambda>r. \<lparr> startYear = 0, totalAmount = 100000 \<rparr>)
        (groupBy [0] (\<lambda>p. startYear ((\<lambda>r. \<lparr> startYear = 0, totalAmount = 100000 \<rparr>) p))) 1 ! 0 = - 100000"
  using C5_schedule_builder [OF refl refl,
      of "\<lambda>r. \<lparr> startYear = 0, totalAmount = 100000 \<rparr>" "[0]" 1 1000000 0]
  by simp

section \<open>Properties of the required amount\<close>

lemma requiredAmountLoop_append:
  "project \<notin> set xs \<Longrightarrow>
     requiredAmountLoop h project a (xs @ project # ys) =
       a + sum_list (map (\<lambda>p. totalAmount (h p)) xs)"
  by (induction xs arbitrary: a) auto

lemma groupBy_sorted_apply:
  "groupBy (sort_key key xs) key k =
     (if filter (\<lambda>x. key x = k) xs = [] then None else Some (filter (\<lambda>x. key x = k) xs))"
  by (simp add: groupBy_apply sort_key_stable)

lemma nth_notin_take:
  assumes "distinct ps" and "k < length ps"
  shows "ps ! k \<notin> set (take k ps)"
proof
  assume "ps ! k \<in> set (take k ps)"
  then obtain i where i: "i < k" "take k ps ! i = ps ! k"
    using assms(2) by (auto simp: in_set_conv_nth)
  then have "ps ! i = ps ! k" by simp
  with assms i(1) show False by (simp add: nth_eq_iff_index_eq)
qed

lemma calculateRequiredAmount_member:
  assumes "distinct ps" and "k < length ps"
  shows "calculateRequiredAmount h (ps ! k)
           (groupBy (sort_key (\<lambda>p. startYear (h p)) ps) (\<lambda>p. startYear (h p))) =
         Inr (totalAmount (h (ps ! k)) +
              sum_list (map (\<lambda>p. totalAmount (h p))
                (filter (\<lambda>q. startYear (h q) = startYear (h (ps ! k))) (take k ps))))"
proof -
  let ?p = "ps ! k"
  let ?same = "\<lambda>q. startYear (h q) = startYear (h ?p)"
  have split: "ps = take k ps @ ?p # drop (Suc k) ps"
    using assms(2) by (rule id_take_nth_drop)
  have "filter ?same ps = filter ?same (take k ps) @ filter ?same (?p # drop (Suc k) ps)"
    by (subst split) (simp only: filter_append)
  then have same: "filter ?same ps = filter ?same (take k ps) @ ?p # filter ?same (drop (Suc k) ps)"
    by simp
  have "?p \<notin> set (take k ps)"
    using assms by (rule nth_notin_take)
  then have notin: "?p \<notin> set (filter ?same (take k ps))"
    by simp
  show ?thesis
    unfolding calculateRequiredAmount_def groupBy_sorted_apply same
    by (simp add: requiredAmountLoop_append [OF notin])
qed

text \<open>
  Claim C4. For every project of the input list (the project objects being pairwise
  distinct), \<open>calculateRequiredAmount\<close>, applied to the dictionary that the environment
  holds, returns the project's own \<open>totalAmount\<close> plus the \<open>totalAmount\<close> of every
  other project with the same \<open>startYear\<close> that precedes it in input order, and only
  of those. For two projects with start year 0 and the amounts 50000 and 30000, in
  this order, the first requires 50000 and the second 80000.
\<close>

theorem C4_required_amount:
  assumes "distinct ps" and "k < length ps"
  shows "calculateRequiredAmount h (ps ! k)
           (groupBy (sort_key (\<lambda>p. startYear (h p)) ps) (\<lambda>p. startYear (h p))) =
         Inr (totalAmount (h (ps ! k)) +
              sum_list (map (\<lambda>p. totalAmount (h p))
                (filter (\<lambda>q. startYear (h q) = startYear (h (ps ! k))) (take k ps)))) \<and>
         (ps = [a, b] \<and> h a = \<lparr> startYear = 0, totalAmount = 50000 \<rparr> \<and>
          h b = \<lparr> startYear = 0, totalAmount = 30000 \<rparr> \<longrightarrow>
            calculateRequiredAmount h a
              (groupBy (sort_key (\<lambda>p. startYear (h p)) ps) (\<lambda>p. startYear (h p))) = Inr 50000 \<and>
            calculateRequiredAmount h b
              (groupBy (sort_key (\<lambda>p. startYear (h p)) ps) (\<lambda>p. startYear (h p))) = Inr 80000)"
proof -
  have scenario:
    "calculateRequiredAmount h a
       (groupBy (sort_key (\<lambda>p. startYear (h p)) ps) (\<lambda>p. startYear (h p))) = Inr 50000 \<and>
     calculateRequiredAmount h b
       (groupBy (sort_key (\<lambda>p. startYear (h p)) ps) (\<lambda>p. startYear (h p))) = Inr 80000"
    if ps: "ps = [a, b]" and a: "h a = \<lparr> startYear = 0, totalAmount = 50000 \<rparr>"
      and b: "h b = \<lparr> startYear = 0, totalAmount = 30000 \<rparr>"
  proof -
    have "0 < length ps" "1 < length ps" "ps ! 0 = a" "ps ! 1 = b"
      using ps by simp_all
    then show ?thesis
      using calculateRequiredAmount_member [OF assms(1), of 0 h]
        calculateRequiredAmount_member [OF assms(1), of 1 h] a b ps
      by simp
  qed
  show ?thesis
    using calculateRequiredAmount_member [OF assms] scenario by blast
qed

theorem C4_required_amount_witness:
  "calculateRequiredAmount
     (\<lambda>r. if r = 0 then \<lparr> startYear = 0, totalAmount = 50000 \<rparr>
           else \<lparr> startYear = 0, totalAmount = 30000 \<rparr>) 0
     (groupBy (sort_key (\<lambda>p. startYear ((\<lambda>r. if r = 0 then \<lparr> startYear = 0, totalAmount = 50000 \<rparr>
           else \<lparr> startYear = 0, totalAmount = 30000 \<rparr>) p)) [0, 1])
        (\<lambda>p. startYear ((\<lambda>r. if r = 0 then \<lparr> startYear = 0, totalAmount = 50000 \<rparr>
           else \<lparr> startYear = 0, totalAmount = 30000 \<rparr>) p))) = Inr 50000 \<and>
   calculateRequiredAmount
     (\<lambda>r. if r = 0 then \<lparr> startYear = 0, totalAmount = 50000 \<rparr>
           else \<lparr> startYear = 0, totalAmount = 30000 \<rparr>) 1
     (groupBy (sort_key (\<lambda>p. startYear ((\<lambda>r. if r = 0 then \<lparr> startYear = 0, totalAmount = 50000 \<rparr>
           else \<lparr> startYear = 0, totalAmount = 30000 \<rparr>) p)) [0, 1])
        (\<lambda>p. startYear ((\<lambda>r. if r = 0 then \<lparr> startYear = 0, totalAmount = 50000 \<rparr>
           else \<lparr> startYear = 0, totalAmount = 30000 \<rparr>) p))) = Inr 80000"
proof -
  have d: "distinct [0, 1 :: nat]" by simp
  have k: "(1 :: nat) < length [0, 1 :: nat]" by simp
  show ?thesis
    using C4_required_amount [OF d k,
        of "\<lambda>r. if r = 0 then \<lparr> startYear = 0, totalAmount = 50000 \<rparr>
                 else \<lparr> startYear = 0, totalAmount = 30000 \<rparr>" 0 1]
    by simp
qed


section \<open>Properties of options initialization\<close>

text \<open>
  Claim C6, as amended. Options initialization fills every unset property with its
  default: \<open>numYears = 10\<close>, \<open>numRuns = 10000\<close>, \<open>investmentAmount = 1000000\<close>,
  \<open>performance = 0\<close>, \<open>liquidity = 10000\<close>, and also \<open>projects = []\<close> and
  \<open>volatility = 0.01\<close>; \<open>seed\<close> stays undefined. A property that the caller has
  set keeps the caller's value.
\<close>

theorem C6_defaults:
  "initializeOptions None =
     \<lparr> numYears = 10, numRuns = 10000, projects = [], investmentAmount = 1000000,
       performance = 0, seed = None, taskIndex = None, valuesPerWorker = None,
       liquidity = 10000, volatility = 1 / 100 \<rparr> \<and>
   initializeOptions (Some opts) =
     \<lparr> numYears = (case o_numYears opts of None \<Rightarrow> 10 | Some v \<Rightarrow> v),
       numRuns = (case o_numRuns opts of None \<Rightarrow> 10000 | Some v \<Rightarrow> v),
       projects = (case o_projects opts of None \<Rightarrow> [] | Some v \<Rightarrow> v),
       investmentAmount = (case o_investmentAmount opts of None \<Rightarrow> 1000000 | Some v \<Rightarrow> v),
       performance = (case o_performance opts of None \<Rightarrow> 0 | Some v \<Rightarrow> v),
       seed = o_seed opts, taskIndex = None, valuesPerWorker = None,
       liquidity = (case o_liquidity opts of None \<Rightarrow> 10000 | Some v \<Rightarrow> v),
       volatility = (case o_volatility opts of None \<Rightarrow> 1 / 100 | Some v \<Rightarrow> v) \<rparr>"
  by (simp add: initializeOptions_def split: option.split)

text \<open>
  Claim C6 as stated says that \<open>volatility\<close> and \<open>projects\<close> have no default. For an
  absent options object, and for an options object without any property,
  initialization sets \<open>volatility\<close> to 0.01 and \<open>projects\<close> to the empty list.
\<close>

theorem C6_volatility_default_counterexample:
  "volatility (initializeOptions None) = 1 / 100 \<and>
   projects (initializeOptions None) = [] \<and>
   volatility (initializeOptions (Some \<lparr> o_numYears = None, o_numRuns = None, o_projects = None,
     o_investmentAmount = None, o_performance = None, o_seed = None, o_volatility = None,
     o_liquidity = None \<rparr>)) = 1 / 100"
  by (simp add: initializeOptions_def)

section \<open>Properties of the groups\<close>

lemma groupForValue_createGroups:
  assumes "nir \<noteq> NaN"
  shows "\<exists>g. groupForValue (Num v) (createGroups r nir l) = Some g"
  using assms by (cases nir) (simp_all add: groupForValue_def createGroups_def inBand_def)

text \<open>
  Claim C2, as amended. For every required amount, liquidity and reference value,
  every real value lies in at least one of the four bands, so \<open>groupForValue\<close> finds
  a group for it (the first one in the order green, yellow, gray, red). When the
  liquidity is not negative and the reference value is at most
  \<open>requiredAmount - liquidity\<close>, the value lies in exactly one band.
\<close>

theorem C2_bands_cover:
  "(\<exists>g \<in> set (createGroups r (Num n) l).
      groupForValue (Num v) (createGroups r (Num n) l) = Some g \<and> inBand (Num v) g) \<and>
   (0 \<le> l \<and> n \<le> r - l \<longrightarrow>
      length (filter (inBand (Num v)) (createGroups r (Num n) l)) = 1)"
  by (simp add: groupForValue_def createGroups_def inBand_def)

theorem C2_bands_cover_witness:
  "(0 :: real) \<le> 10000 \<and> (50000 :: real) \<le> 100000 - 10000 \<and>
   length (filter (inBand (Num 95000)) (createGroups 100000 (Num 50000) 10000)) = 1"
  using C2_bands_cover [of 100000 50000 10000 95000] by simp

text \<open>
  Claim C2 as stated says that the bands never overlap. With a required amount of
  100000, a liquidity of 10000 and a reference value of 900000, the value 95000 lies
  in the yellow band and in the red band.
\<close>

theorem C2_bands_overlap_counterexample:
  "map g_name (filter (inBand (Num 95000)) (createGroups 100000 (Num 900000) 10000)) =
     [''yellow'', ''red'']"
  by (simp add: createGroups_def inBand_def)

section \<open>Properties of the project aggregator\<close>

lemma numbersOf_map_Num [simp]: "numbersOf (map Num vs) = vs"
  by (induction vs) simp_all

lemma numeric_row:
  "\<forall>v \<in> set row. \<exists>x. v = Num x \<Longrightarrow> row = map Num (numbersOf row)"
  by (induction row) auto

lemma sortNumbers_Num: "sortNumbers engineSort (map Num vs) = map Num (sort vs)"
proof -
  have "NaN \<notin> set (map Num vs)" by auto
  moreover have "filter (\<lambda>x. x = NegInfinity) (map Num vs) = []"
    "filter (\<lambda>x. x = PosInfinity) (map Num vs) = []"
    "filter (\<lambda>x. x = Undefined) (map Num vs) = []"
    by (simp_all add: filter_empty_conv) 
  ultimately show ?thesis by (simp add: sortNumbers_def)
qed

lemma mset_parts:
  "NaN \<notin> set xs \<Longrightarrow>
     mset (filter (\<lambda>x. x = NegInfinity) xs) + mset (map Num (numbersOf xs)) +
     mset (filter (\<lambda>x. x = PosInfinity) xs) + mset (filter (\<lambda>x. x = Undefined) xs) = mset xs"
proof (induction xs)
  case Nil
  show ?case by simp
next
  case (Cons x xs)
  then show ?case by (cases x) simp_all
qed

lemma mset_sortNumbers: "mset (sortNumbers engineSort xs) = mset xs"
proof (cases "NaN \<in> set xs")
  case False
  have "mset (map Num (sort (numbersOf xs))) = mset (map Num (numbersOf xs))"
    by simp
  then show ?thesis
    using False mset_parts [of xs] by (simp add: sortNumbers_def add.assoc)
next
  case True
  let ?ys = "filter (\<lambda>x. x \<noteq> Undefined) xs"
  let ?us = "filter (\<lambda>x. x = Undefined) xs"
  have part: "mset ?ys + mset ?us = mset xs"
    using multiset_partition [of "mset xs" "\<lambda>x. x \<noteq> Undefined"] by simp
  show ?thesis
    using True part by (simp add: sortNumbers_def Let_def)
qed

lemma length_sortNumbers [simp]: "length (sortNumbers engineSort xs) = length xs"
  using mset_sortNumbers [of engineSort xs] by (rule mset_eq_length)

lemma set_sortNumbers [simp]: "set (sortNumbers engineSort xs) = set xs"
  using mset_sortNumbers [of engineSort xs] by (rule mset_eq_setD)

lemma Math_round_div10: "nat (Math_round (real n / 10)) = (n + 5) div 10"
proof -
  have "real n / 10 + 1 / 2 = real_of_int (int n + 5) / real_of_int 10"
    by simp
  then have "\<lfloor>real n / 10 + 1 / 2\<rfloor> = (int n + 5) div 10"
    by (simp only: floor_divide_of_int_eq)
  then show ?thesis
    unfolding Math_round_def by (simp add: nat_div_distrib nat_add_distrib)
qed


lemma bucketLoop_stalls_aux:
  assumes "bucketLoop vs groups bucketSize i valuesByGroup buckets = Some y"
  shows "\<not> (bucketSize = 0 \<and> i < length vs)"
proof (rule bucketLoop.raw_induct
    [where P = "\<lambda>vs groups bucketSize i valuesByGroup buckets y. \<not> (bucketSize = 0 \<and> i < length vs)",
      OF _ assms])
  fix loop :: "jsnum list \<Rightarrow> IGroup list \<Rightarrow> nat \<Rightarrow> nat \<Rightarrow> (string \<Rightarrow> nat) \<Rightarrow> IBucket list \<Rightarrow>
      (error + IBucket list \<times> (string \<Rightarrow> nat)) option"
  fix vs groups bucketSize i valuesByGroup buckets y
  assume hyp: "\<And>vs groups bucketSize i valuesByGroup buckets y.
      loop vs groups bucketSize i valuesByGroup buckets = Some y \<Longrightarrow>
      \<not> (bucketSize = 0 \<and> i < length vs)"
  assume body: "(if i < length vs then
        (case bucketInner vs groups [i..<i + bucketSize]
                (\<lparr> b_max = Num Number_MIN_VALUE, b_min = Num Number_MAX_VALUE, subBuckets = [] \<rparr>,
                 valuesByGroup) of
           Inl e \<Rightarrow> Some (Inl e)
         | Inr st \<Rightarrow> loop vs groups bucketSize (i + bucketSize) (snd st) (buckets @ [fst st]))
      else Some (Inr (buckets, valuesByGroup))) = Some y"
  show "\<not> (bucketSize = 0 \<and> i < length vs)"
  proof
    assume stall: "bucketSize = 0 \<and> i < length vs"
    with body have "loop vs groups 0 i valuesByGroup
        (buckets @ [\<lparr> b_max = Num Number_MIN_VALUE, b_min = Num Number_MAX_VALUE, subBuckets = [] \<rparr>]) = Some y"
      by simp
    from hyp [OF this] stall show False by simp
  qed
qed

lemma bucketLoop_stalls:
  "i < length vs \<Longrightarrow> bucketLoop vs groups 0 i valuesByGroup buckets = None"
  using bucketLoop_stalls_aux [of vs groups 0 i valuesByGroup buckets]
  by (cases "bucketLoop vs groups 0 i valuesByGroup buckets") auto


lemma bucketStep_found:
  assumes "groupForValue (arrayAt vs (int j)) groups = Some g"
  shows "\<exists>st1. bucketStep vs groups st j = Inr st1"
  using assms by (simp add: bucketStep_def Let_def)

lemma bucketInner_found:
  assumes "\<forall>j \<in> set js. \<exists>g. groupForValue (arrayAt vs (int j)) groups = Some g"
  shows "\<exists>st1. bucketInner vs groups js st = Inr st1"
  using assms
proof (induction js arbitrary: st)
  case Nil
  show ?case by simp
next
  case (Cons j js)
  from Cons.prems obtain g where "groupForValue (arrayAt vs (int j)) groups = Some g"
    by auto
  then obtain st1 where "bucketStep vs groups st j = Inr st1"
    using bucketStep_found by blast
  moreover have "\<exists>st2. bucketInner vs groups js st1 = Inr st2"
    using Cons.IH Cons.prems by simp
  ultimately show ?case by simp
qed

lemma bucketLoop_returns:
  assumes "0 < bucketSize" and "bucketSize dvd m" and "length vs \<le> m"
    and "\<forall>j < m. \<exists>g. groupForValue (arrayAt vs (int j)) groups = Some g"
    and "bucketSize dvd i"
  shows "\<exists>r. bucketLoop vs groups bucketSize i valuesByGroup buckets = Some (Inr r)"
  using assms(5)
proof (induction "length vs - i" arbitrary: i valuesByGroup buckets rule: less_induct)
  case less
  show ?case
  proof (cases "i < length vs")
    case False
    then show ?thesis by (subst bucketLoop.simps) simp
  next
    case True
    have "i < m" using True assms(3) by simp
    obtain a where a: "i = bucketSize * a" using less.prems by (auto simp: dvd_def)
    obtain b where b: "m = bucketSize * b" using assms(2) by (auto simp: dvd_def)
    have "a < b" using \<open>i < m\<close> assms(1) unfolding a b by simp
    then have "Suc a \<le> b" by simp
    then have "bucketSize * Suc a \<le> bucketSize * b" by (rule mult_le_mono2)
    then have bound: "i + bucketSize \<le> m" unfolding a b by simp
    have "\<forall>j \<in> set [i..<i + bucketSize]. \<exists>g. groupForValue (arrayAt vs (int j)) groups = Some g"
      using assms(4) bound by simp
    then obtain st1 where st1: "bucketInner vs groups [i..<i + bucketSize]
        (\<lparr> b_max = Num Number_MIN_VALUE, b_min = Num Number_MAX_VALUE, subBuckets = [] \<rparr>,
         valuesByGroup) = Inr st1"
      using bucketInner_found by blast
    have "length vs - (i + bucketSize) < length vs - i"
      using True assms(1) by simp
    moreover have "bucketSize dvd i + bucketSize"
      using less.prems by simp
    ultimately obtain r where
      "bucketLoop vs groups bucketSize (i + bucketSize) (snd st1) (buckets @ [fst st1]) = Some (Inr r)"
      using less.hyps by blast
    then show ?thesis
      using True st1 by (subst bucketLoop.simps) simp
  qed
qed

lemma bucketLoop_empty:
  "bucketLoop [] groups bucketSize 0 valuesByGroup buckets = Some (Inr (buckets, valuesByGroup))"
  by (subst bucketLoop.simps) simp



lemma arrayAt_Num_nth: "j < length vs \<Longrightarrow> arrayAt (map Num vs) (int j) = Num (vs ! j)"
  by (simp add: arrayAt_def)

lemma arrayAt_Num_not_NaN: "arrayAt (map Num vs) i \<noteq> NaN"
proof (cases "0 \<le> i \<and> i < int (length vs)")
  case True
  then have "nat i < length vs" by linarith
  then have "map Num vs ! nat i = Num (vs ! nat i)" by (rule nth_map)
  then show ?thesis using True by (auto simp: arrayAt_def)
next
  case False
  then show ?thesis by (auto simp: arrayAt_def)
qed

lemma calculateProject_result:
  assumes "calculateProject engineSort h p env = Some (Inr (r, env1))"
    and "row = sortNumbers engineSort (simulatedValues env ! nat (startYear (h p)))"
  shows "0 \<le> startYear (h p) \<and> startYear (h p) < int (length (simulatedValues env)) \<and>
         env1 = env\<lparr> simulatedValues := (simulatedValues env)[nat (startYear (h p)) := row] \<rparr> \<and>
         r_project r = p \<and>
         r_min r = arrayAt row 0 \<and>
         r_max r = arrayAt row (int (length row) - 1) \<and>
         r_median r = median row \<and>
         tt_min (r_twoThird r) = arrayAt row (Math_round (real (length row) / 6)) \<and>
         tt_max (r_twoThird r) = arrayAt row (int (length row) - Math_round (real (length row) / 6))"
  using assms
  by (auto simp: calculateProject_def Let_def split: sum.splits if_splits option.splits prod.splits)

lemma calculateProject_returns:
  assumes "projectsByStartYear env (startYear (h p)) = Some l"
    and "0 \<le> startYear (h p)" and "startYear (h p) < int (length (simulatedValues env))"
    and "simulatedValues env ! nat (startYear (h p)) = map Num vs"
    and "n = length vs"
    and "n = 0 \<or> (0 < (n + 5) div 10 \<and> (n + 5) div 10 dvd n)"
  shows "\<exists>r env1. calculateProject engineSort h p env = Some (Inr (r, env1))"
proof -
  let ?row = "map Num (sort vs)"
  let ?req = "requiredAmountLoop h p (totalAmount (h p)) l"
  let ?groups = "createGroups ?req
      (arrayAt (map Num (noInterestReferenceLine env)) (startYear (h p))) (env_liquidity env)"
  have row: "sortNumbers engineSort (simulatedValues env ! nat (startYear (h p))) = ?row"
    using assms(4) by (simp add: sortNumbers_Num)
  have len: "length ?row = n" using assms(5) by simp
  have found: "\<forall>j < n. \<exists>g. groupForValue (arrayAt ?row (int j)) ?groups = Some g"
    using assms(5) by (simp add: arrayAt_Num_nth groupForValue_createGroups arrayAt_Num_not_NaN)
  have "\<exists>res. bucketLoop ?row ?groups ((n + 5) div 10) 0 (\<lambda>name. 0) [] = Some (Inr res)"
  proof (cases "n = 0")
    case True
    then have "?row = []" using assms(5) by simp
    then show ?thesis by (simp add: bucketLoop_empty)
  next
    case False
    with assms(6) have bs: "0 < (n + 5) div 10" "(n + 5) div 10 dvd n" by simp_all
    have "length ?row \<le> n" using len by simp
    from bucketLoop_returns [OF bs(1) bs(2) this found] show ?thesis by simp
  qed
  then obtain res where "bucketLoop ?row ?groups ((n + 5) div 10) 0 (\<lambda>name. 0) [] = Some (Inr res)"
    by blast
  then show ?thesis
    using assms(1-3) assms(5) row
    by (simp add: calculateProject_def calculateRequiredAmount_def Let_def Math_round_div10
        split: prod.splits)
qed

lemma calculateProject_diverges:
  assumes "projectsByStartYear env (startYear (h p)) = Some l"
    and "0 \<le> startYear (h p)" and "startYear (h p) < int (length (simulatedValues env))"
    and "n = length (simulatedValues env ! nat (startYear (h p)))"
    and "0 < n" and "n < 5"
  shows "calculateProject engineSort h p env = None"
proof -
  let ?row = "sortNumbers engineSort (simulatedValues env ! nat (startYear (h p)))"
  have len: "length ?row = n" using assms(4) by simp
  have size: "(n + 5) div 10 = 0" using assms(6) by simp
  have "0 < length ?row" using len assms(5) by simp
  then have stall: "bucketLoop ?row groups 0 0 valuesByGroup buckets = None"
    for groups valuesByGroup buckets
    by (rule bucketLoop_stalls)
  show ?thesis
    using assms(1-3) len size
    by (simp add: calculateProject_def calculateRequiredAmount_def Let_def Math_round_div10 stall)
qed

section \<open>Properties of the environment and of the driver\<close>

lemma simulateOutcomes_shape:
  assumes "simulateOutcomes normal cashFlows amount options = Inr values"
  shows "validArrayLength (numYears options) \<and> validArrayLength (numRuns options) \<and>
         length values = nat (numYears options) + 1 \<and>
         (\<forall>row \<in> set values. length row = nat (numRuns options))"
  using assms by (auto simp: simulateOutcomes_def Let_def split: if_splits)

lemma simulateOutcomes_returns:
  assumes "validArrayLength (numYears options)" and "validArrayLength (numRuns options)"
  shows "\<exists>values. simulateOutcomes normal cashFlows amount options = Inr values"
  using assms by (simp add: simulateOutcomes_def Let_def)

lemma simulateOutcomes_RangeError:
  assumes "\<not> validArrayLength (numYears options) \<or> \<not> validArrayLength (numRuns options)"
  shows "simulateOutcomes normal cashFlows amount options = Inl RangeError"
  using assms by (auto simp: simulateOutcomes_def)

lemma length_relativeLoop [simp]:
  "length (relativeLoop draw indices years) = length indices + length years"
  by (induction years arbitrary: indices) (simp_all add: Let_def)

lemma length_toAbsoluteLoop [simp]:
  "length (toAbsoluteLoop cashFlows v prev indices years) = length indices"
  by (induction years arbitrary: v prev indices) (simp_all add: Let_def)

lemma length_simulateRun [simp]:
  "length (simulateRun normal cashFlows amount options run) = nat (numYears options) + 1"
  by (simp add: simulateRun_def toAbsoluteIndices_def Let_def)

lemma createMonteCarloEnvironment_shape:
  assumes "createMonteCarloEnvironment normal h options = Inr (env, arr)"
  shows "validArrayLength (numYears options) \<and> validArrayLength (numRuns options) \<and>
         length (noInterestReferenceLine env) = nat (numYears options) \<and>
         length (simulatedValues env) = nat (numYears options) + 1 \<and>
         (\<forall>row \<in> set (simulatedValues env). length row = nat (numRuns options)) \<and>
         env_numRuns env = numRuns options \<and>
         projectsByStartYear env =
           groupBy (sort_key (\<lambda>p. startYear (h p)) (projects options)) (\<lambda>p. startYear (h p)) \<and>
         arr = sort_key (\<lambda>p. startYear (h p)) (projects options)"
proof -
  let ?sorted = "sort_key (\<lambda>p. startYear (h p)) (projects options)"
  let ?cashFlows = "projectsToCashFlows h (groupBy ?sorted (\<lambda>p. startYear (h p))) (numYears options)"
  obtain vals where v: "simulateOutcomes normal ?cashFlows (investmentAmount options) options = Inr vals"
    using assms by (auto simp: createMonteCarloEnvironment_def Let_def split: sum.splits)
  note shape = simulateOutcomes_shape [OF v]
  have "simulatedValues env = vals" "arr = ?sorted"
    "length (noInterestReferenceLine env) = nat (numYears options)"
    "env_numRuns env = numRuns options"
    "projectsByStartYear env = groupBy ?sorted (\<lambda>p. startYear (h p))"
    using assms v by (auto simp: createMonteCarloEnvironment_def Let_def)
  then show ?thesis using shape by simp
qed

lemma createMonteCarloEnvironment_returns:
  assumes "validArrayLength (numYears options)" and "validArrayLength (numRuns options)"
  shows "\<exists>env. createMonteCarloEnvironment normal h options =
           Inr (env, sort_key (\<lambda>p. startYear (h p)) (projects options))"
proof -
  let ?sorted = "sort_key (\<lambda>p. startYear (h p)) (projects options)"
  let ?cashFlows = "projectsToCashFlows h (groupBy ?sorted (\<lambda>p. startYear (h p))) (numYears options)"
  obtain vals where "simulateOutcomes normal ?cashFlows (investmentAmount options) options = Inr vals"
    using simulateOutcomes_returns [OF assms] by blast
  then show ?thesis
    by (simp add: createMonteCarloEnvironment_def Let_def)
qed

lemma createMonteCarloEnvironment_RangeError:
  assumes "\<not> validArrayLength (numYears options) \<or> \<not> validArrayLength (numRuns options)"
  shows "createMonteCarloEnvironment normal h options = Inl RangeError"
  by (simp add: createMonteCarloEnvironment_def Let_def simulateOutcomes_RangeError [OF assms])


lemma calculateAll_projects:
  "calculateAll engineSort h ps env acc = Some (Inr rs) \<Longrightarrow> map r_project rs = map r_project acc @ ps"
proof (induction ps arbitrary: env acc)
  case Nil
  then show ?case by simp
next
  case (Cons p ps)
  from Cons.prems obtain r env1 where
    step: "calculateProject engineSort h p env = Some (Inr (r, env1))"
    and rest: "calculateAll engineSort h ps env1 (acc @ [r]) = Some (Inr rs)"
    by (auto split: option.splits sum.splits prod.splits)
  have "r_project r = p"
    using calculateProject_result [OF step refl] by simp
  with Cons.IH [OF rest] show ?case by simp
qed

lemma calculateAll_returns:
  assumes "\<forall>p \<in> set ps. projectsByStartYear env (startYear (h p)) \<noteq> None \<and>
             0 \<le> startYear (h p) \<and> startYear (h p) < int (length (simulatedValues env))"
    and "\<forall>row \<in> set (simulatedValues env). length row = n \<and> (\<forall>v \<in> set row. \<exists>x. v = Num x)"
    and "n = 0 \<or> (0 < (n + 5) div 10 \<and> (n + 5) div 10 dvd n)"
  shows "\<exists>rs. calculateAll engineSort h ps env acc = Some (Inr rs)"
  using assms(1,2)
proof (induction ps arbitrary: env acc)
  case Nil
  show ?case by simp
next
  case (Cons p ps)
  let ?k = "nat (startYear (h p))"
  let ?sv = "simulatedValues env"
  from Cons.prems(1) obtain l where l: "projectsByStartYear env (startYear (h p)) = Some l"
    and lo: "0 \<le> startYear (h p)" and hi: "startYear (h p) < int (length ?sv)"
    by auto
  have mem: "?sv ! ?k \<in> set ?sv" using lo hi by simp
  then have "\<forall>v \<in> set (?sv ! ?k). \<exists>x. v = Num x" using Cons.prems(2) by blast
  then have row: "?sv ! ?k = map Num (numbersOf (?sv ! ?k))" by (rule numeric_row)
  have "length (?sv ! ?k) = n" using mem Cons.prems(2) by blast
  then have len: "n = length (numbersOf (?sv ! ?k))"
    using arg_cong [OF row, of length] by simp
  obtain r env1 where step: "calculateProject engineSort h p env = Some (Inr (r, env1))"
    using calculateProject_returns [of env h p l "numbersOf (?sv ! ?k)" n engineSort,
        OF l lo hi row len assms(3)]
    by blast
  have env1: "env1 = env\<lparr> simulatedValues := ?sv[?k := sortNumbers engineSort (?sv ! ?k)] \<rparr>"
    using calculateProject_result [OF step refl] by simp
  have rows: "\<forall>row \<in> set (simulatedValues env1).
      length row = n \<and> (\<forall>v \<in> set row. \<exists>x. v = Num x)"
  proof
    fix row assume "row \<in> set (simulatedValues env1)"
    then have "row \<in> insert (sortNumbers engineSort (?sv ! ?k)) (set ?sv)"
      using set_update_subset_insert [of ?sv ?k "sortNumbers engineSort (?sv ! ?k)"] env1 by auto
    then show "length row = n \<and> (\<forall>v \<in> set row. \<exists>x. v = Num x)"
      using Cons.prems(2) mem by auto
  qed
  have "\<forall>q \<in> set ps. projectsByStartYear env1 (startYear (h q)) \<noteq> None \<and>
          0 \<le> startYear (h q) \<and> startYear (h q) < int (length (simulatedValues env1))"
    using Cons.prems(1) env1 by simp
  from Cons.IH [OF this rows] obtain rs where
    "calculateAll engineSort h ps env1 (acc @ [r]) = Some (Inr rs)" by blast
  then show ?case using step by simp
qed

lemma calculateAll_out_of_range:
  assumes "\<exists>p \<in> set ps. startYear (h p) < 0 \<or> int (length (simulatedValues env)) \<le> startYear (h p)"
  shows "calculateAll engineSort h ps env acc \<noteq> Some (Inr rs)"
  using assms
proof (induction ps arbitrary: env acc)
  case Nil
  then show ?case by simp
next
  case (Cons p ps)
  show ?case
  proof
    assume "calculateAll engineSort h (p # ps) env acc = Some (Inr rs)"
    then obtain r env1 where
      step: "calculateProject engineSort h p env = Some (Inr (r, env1))"
      and rest: "calculateAll engineSort h ps env1 (acc @ [r]) = Some (Inr rs)"
      by (auto split: option.splits sum.splits prod.splits)
    note res = calculateProject_result [OF step refl]
    from res have inr: "0 \<le> startYear (h p)" "startYear (h p) < int (length (simulatedValues env))"
      by simp_all
    from res have "length (simulatedValues env1) = length (simulatedValues env)"
      by simp
    with Cons.prems inr have
      "\<exists>q \<in> set ps. startYear (h q) < 0 \<or> int (length (simulatedValues env1)) \<le> startYear (h q)"
      by auto
    from Cons.IH [OF this] rest show False by simp
  qed
qed

lemma groupBy_member:
  "p \<in> set ps \<Longrightarrow> groupBy (sort_key key ps) key (key p) \<noteq> None"
  by (auto simp: groupBy_sorted_apply filter_empty_conv)


subsection \<open>The environment of the example\<close>

lemma exampleOptions_initialized:
  "numYears (initializeOptions (Some exampleOptions)) = 2"
  "numRuns (initializeOptions (Some exampleOptions)) = 5"
  "projects (initializeOptions (Some exampleOptions)) = [0, 1]"
  "investmentAmount (initializeOptions (Some exampleOptions)) = 1000000"
  "liquidity (initializeOptions (Some exampleOptions)) = 10000"
  "taskIndex (initializeOptions (Some exampleOptions)) = None"
  "valuesPerWorker (initializeOptions (Some exampleOptions)) = None"
  by (simp_all add: initializeOptions_def exampleOptions_def)

lemma example_sorted:
  "sort_key (\<lambda>p. startYear (exampleStore p)) [0, 1] = [1, 0]"
  by (simp add: exampleStore_def)

lemma example_cashFlows:
  "projectsToCashFlows exampleStore (groupBy [1, 0] (\<lambda>p. startYear (exampleStore p))) 2 =
     [- 50000, - 30000]"
  by code_simp

lemma example_referenceLine:
  "calculateNoInterestReferenceLine [- 50000, - 30000] 1000000 2 = [950000, 920000]"
  by code_simp

lemma example_simulateOutcomes:
  "simulateOutcomes exampleNormal [- 50000, - 30000] 1000000
     (initializeOptions (Some exampleOptions)) =
   Inr [map Num [1000000, 1000000, 1000000, 1000000, 1000000],
        map Num [950000, 931000, 912000, 893000, 874000],
        map Num [910800, 873970, 837900, 802590, 768040]]"
  by code_simp

lemma example_maxYear:
  "foldl (\<lambda>memo project. max memo (startYear (exampleStore project))) 0 [1, 0] = 1"
  by (simp add: exampleStore_def)

lemma exampleEnvironment_built:
  "createMonteCarloEnvironment exampleNormal exampleStore (initializeOptions (Some exampleOptions)) =
     Inr (exampleEnvironment, [1, 0])"
  by (simp only: createMonteCarloEnvironment_def exampleOptions_initialized example_sorted
      Let_def example_cashFlows example_referenceLine example_simulateOutcomes example_maxYear
      exampleEnvironment_def option.case prod.case sum.case)


subsection \<open>The driver in terms of its loop\<close>

lemma initializeOptions_projects:
  "o_projects opts = Some ps \<Longrightarrow> projects (initializeOptions (Some opts)) = ps"
  by (simp add: initializeOptions_def)

lemma syncMonteCarlo_with_environment:
  assumes "o_projects opts = Some ps"
    and "createMonteCarloEnvironment normal h (initializeOptions (Some opts)) = Inr (env, arr)"
  shows "syncMonteCarlo engineSort normal h (Some opts) = calculateAll engineSort h arr env []"
  using assms by (simp add: syncMonteCarlo_def)

lemma syncMonteCarlo_RangeError:
  assumes "\<not> validArrayLength (numYears (initializeOptions options)) \<or>
           \<not> validArrayLength (numRuns (initializeOptions options))"
  shows "syncMonteCarlo engineSort normal h options = Some (Inl RangeError)"
  by (simp add: syncMonteCarlo_def createMonteCarloEnvironment_RangeError [OF assms])

lemma syncMonteCarlo_projects:
  assumes "o_projects opts = Some ps"
    and "syncMonteCarlo engineSort normal h (Some opts) = Some (Inr rs)"
  shows "map r_project rs = sort_key (\<lambda>p. startYear (h p)) ps"
proof (cases "createMonteCarloEnvironment normal h (initializeOptions (Some opts))")
  case (Inl e)
  then show ?thesis using assms(2) by (simp add: syncMonteCarlo_def)
next
  case (Inr pair)
  obtain env arr where pair: "pair = (env, arr)" by (cases pair)
  note built = Inr [unfolded pair]
  have arr: "arr = sort_key (\<lambda>p. startYear (h p)) ps"
    using createMonteCarloEnvironment_shape [OF built] initializeOptions_projects [OF assms(1)]
    by simp
  have "calculateAll engineSort h arr env [] = Some (Inr rs)"
    using syncMonteCarlo_with_environment [OF assms(1) built] assms(2) by simp
  from calculateAll_projects [OF this] arr show ?thesis by simp
qed

lemma syncMonteCarlo_returns:
  assumes "o_projects opts = Some ps"
    and built: "createMonteCarloEnvironment normal h (initializeOptions (Some opts)) = Inr (env, arr)"
    and numeric: "\<forall>row \<in> set (simulatedValues env). \<forall>v \<in> set row. \<exists>x. v = Num x"
    and "\<forall>p \<in> set ps. 0 \<le> startYear (h p) \<and>
           startYear (h p) \<le> numYears (initializeOptions (Some opts))"
    and "n = nat (numRuns (initializeOptions (Some opts)))"
    and "n = 0 \<or> (0 < (n + 5) div 10 \<and> (n + 5) div 10 dvd n)"
  shows "\<exists>rs. syncMonteCarlo engineSort normal h (Some opts) = Some (Inr rs)"
proof -
  let ?options = "initializeOptions (Some opts)"
  let ?key = "\<lambda>p. startYear (h p)"
  note shape = createMonteCarloEnvironment_shape [OF built]
  have ps: "projects ?options = ps" using assms(1) by (rule initializeOptions_projects)
  have arr: "arr = sort_key ?key ps" using shape ps by simp
  have len: "int (length (simulatedValues env)) = numYears ?options + 1"
    using shape by (simp add: validArrayLength_def)
  have dict: "projectsByStartYear env = groupBy (sort_key ?key ps) ?key"
    using shape ps by simp
  have members: "\<forall>p \<in> set arr.
      projectsByStartYear env (startYear (h p)) \<noteq> None \<and>
      0 \<le> startYear (h p) \<and> startYear (h p) < int (length (simulatedValues env))"
  proof
    fix p assume "p \<in> set arr"
    then have p: "p \<in> set ps" using arr by simp
    have "groupBy (sort_key ?key ps) ?key (?key p) \<noteq> None"
      using p by (rule groupBy_member)
    then show "projectsByStartYear env (startYear (h p)) \<noteq> None \<and>
      0 \<le> startYear (h p) \<and> startYear (h p) < int (length (simulatedValues env))"
      using assms(4) p len dict by auto
  qed
  have rows: "\<forall>row \<in> set (simulatedValues env).
      length row = n \<and> (\<forall>v \<in> set row. \<exists>x. v = Num x)"
    using shape assms(5) numeric by simp
  obtain rs where "calculateAll engineSort h arr env [] = Some (Inr rs)"
    using calculateAll_returns [OF members rows assms(6)] by blast
  then show ?thesis
    using syncMonteCarlo_with_environment [OF assms(1) built] by simp
qed

lemma syncMonteCarlo_out_of_range:
  assumes "o_projects opts = Some ps"
    and "\<exists>p \<in> set ps. startYear (h p) < 0 \<or>
           numYears (initializeOptions (Some opts)) < startYear (h p)"
  shows "syncMonteCarlo engineSort normal h (Some opts) \<noteq> Some (Inr rs)"
proof (cases "createMonteCarloEnvironment normal h (initializeOptions (Some opts))")
  case (Inl e)
  then show ?thesis by (simp add: syncMonteCarlo_def)
next
  case (Inr pair)
  obtain env arr where pair: "pair = (env, arr)" by (cases pair)
  note built = Inr [unfolded pair]
  note shape = createMonteCarloEnvironment_shape [OF built]
  have arr: "set arr = set ps"
    using shape initializeOptions_projects [OF assms(1)] by simp
  have len: "int (length (simulatedValues env)) = numYears (initializeOptions (Some opts)) + 1"
    using shape by (simp add: validArrayLength_def)
  from assms(2) obtain p where p: "p \<in> set ps"
    and bad: "startYear (h p) < 0 \<or> numYears (initializeOptions (Some opts)) < startYear (h p)"
    by blast
  from bad len have "startYear (h p) < 0 \<or> int (length (simulatedValues env)) \<le> startYear (h p)"
    by linarith
  with p arr have
    "\<exists>p \<in> set arr. startYear (h p) < 0 \<or> int (length (simulatedValues env)) \<le> startYear (h p)"
    by blast
  from calculateAll_out_of_range [OF this]
  show ?thesis using syncMonteCarlo_with_environment [OF assms(1) built] by simp
qed

lemma syncMonteCarlo_diverges:
  assumes "o_projects opts = Some ps" and "ps \<noteq> []"
    and "validArrayLength (numYears (initializeOptions (Some opts)))"
    and "0 < numRuns (initializeOptions (Some opts))"
    and "numRuns (initializeOptions (Some opts)) < 5"
    and "\<forall>p \<in> set ps. 0 \<le> startYear (h p) \<and>
           startYear (h p) \<le> numYears (initializeOptions (Some opts))"
  shows "syncMonteCarlo engineSort normal h (Some opts) = None"
proof -
  let ?options = "initializeOptions (Some opts)"
  let ?key = "\<lambda>p. startYear (h p)"
  have "validArrayLength (numRuns ?options)"
    using assms(4,5) by (simp add: validArrayLength_def)
  then obtain env where built:
    "createMonteCarloEnvironment normal h ?options = Inr (env, sort_key ?key (projects ?options))"
    using createMonteCarloEnvironment_returns [OF assms(3)] by blast
  note shape = createMonteCarloEnvironment_shape [OF built]
  have ps: "projects ?options = ps" using assms(1) by (rule initializeOptions_projects)
  have "sort_key ?key ps \<noteq> []"
  proof
    assume "sort_key ?key ps = []"
    then have "length (sort_key ?key ps) = 0" by (simp only: list.size)
    then have "length ps = 0" by (simp only: length_sort)
    with assms(2) show False by simp
  qed
  then obtain p rest where arr: "sort_key ?key ps = p # rest"
    by (cases "sort_key ?key ps") auto
  then have "p \<in> set (sort_key ?key ps)" by simp
  then have p: "p \<in> set ps" by simp
  have "groupBy (sort_key ?key ps) ?key (?key p) \<noteq> None"
    using p by (rule groupBy_member)
  then obtain l where l: "projectsByStartYear env (startYear (h p)) = Some l"
    using shape ps by auto
  have lo: "0 \<le> startYear (h p)" using assms(6) p by simp
  have hi: "startYear (h p) < int (length (simulatedValues env))"
    using shape assms(3,6) p by (auto simp: validArrayLength_def)
  then have "simulatedValues env ! nat (startYear (h p)) \<in> set (simulatedValues env)"
    using lo by simp
  then have len: "nat (numRuns ?options) = length (simulatedValues env ! nat (startYear (h p)))"
    using shape by simp
  have "calculateProject engineSort h p env = None"
    using calculateProject_diverges [of env h p l "nat (numRuns ?options)", OF l lo hi len]
      assms(4,5) by simp
  then have "calculateAll engineSort h (sort_key ?key ps) env [] = None"
    unfolding arr by simp
  then show ?thesis
    using syncMonteCarlo_with_environment [OF assms(1) built] ps by simp
qed



subsection \<open>Reading past the end of the slice\<close>

lemma bucketStep_overrun:
  assumes "length vs \<le> j" and "groupForValue Undefined groups = None"
  shows "bucketStep vs groups st j = Inl TypeError"
  using assms by (simp add: bucketStep_def Let_def arrayAt_def)

lemma bucketInner_overrun:
  assumes "\<forall>j \<in> set js. j < length vs \<longrightarrow> (\<exists>g. groupForValue (arrayAt vs (int j)) groups = Some g)"
    and "\<exists>j \<in> set js. length vs \<le> j"
    and "groupForValue Undefined groups = None"
  shows "bucketInner vs groups js st = Inl TypeError"
  using assms(1,2)
proof (induction js arbitrary: st)
  case Nil
  then show ?case by simp
next
  case (Cons j js)
  show ?case
  proof (cases "j < length vs")
    case True
    with Cons.prems(1) obtain g where "groupForValue (arrayAt vs (int j)) groups = Some g"
      by auto
    then obtain st1 where st1: "bucketStep vs groups st j = Inr st1"
      using bucketStep_found by blast
    have "\<exists>j \<in> set js. length vs \<le> j" using Cons.prems(2) True by auto
    moreover have "\<forall>j \<in> set js. j < length vs \<longrightarrow>
        (\<exists>g. groupForValue (arrayAt vs (int j)) groups = Some g)"
      using Cons.prems(1) by simp
    ultimately have "bucketInner vs groups js st1 = Inl TypeError"
      using Cons.IH by blast
    then show ?thesis using st1 by simp
  next
    case False
    then have "length vs \<le> j" by simp
    then have "bucketStep vs groups st j = Inl TypeError"
      using assms(3) by (rule bucketStep_overrun)
    then show ?thesis by simp
  qed
qed

lemma bucketLoop_overrun:
  assumes "0 < bucketSize" and "\<not> bucketSize dvd length vs"
    and "\<forall>j < length vs. \<exists>g. groupForValue (arrayAt vs (int j)) groups = Some g"
    and "groupForValue Undefined groups = None"
    and "bucketSize dvd i" and "i < length vs"
  shows "bucketLoop vs groups bucketSize i valuesByGroup buckets = Some (Inl TypeError)"
  using assms(5,6)
proof (induction "length vs - i" arbitrary: i valuesByGroup buckets rule: less_induct)
  case less
  let ?start = "(\<lparr> b_max = Num Number_MIN_VALUE, b_min = Num Number_MAX_VALUE, subBuckets = [] \<rparr>,
         valuesByGroup)"
  show ?case
  proof (cases "i + bucketSize \<le> length vs")
    case True
    have "\<forall>j \<in> set [i..<i + bucketSize]. \<exists>g. groupForValue (arrayAt vs (int j)) groups = Some g"
      using assms(3) True by simp
    then obtain st1 where st1: "bucketInner vs groups [i..<i + bucketSize] ?start = Inr st1"
      using bucketInner_found by blast
    have d: "bucketSize dvd i + bucketSize" using less.prems(1) by simp
    have "i + bucketSize \<noteq> length vs"
    proof
      assume "i + bucketSize = length vs"
      then have "bucketSize dvd length vs" using d by (simp only:)
      with assms(2) show False by (rule notE)
    qed
    then have lt: "i + bucketSize < length vs" using True by simp
    have "length vs - (i + bucketSize) < length vs - i"
      using less.prems(2) assms(1) by simp
    then have "bucketLoop vs groups bucketSize (i + bucketSize) (snd st1) (buckets @ [fst st1]) =
        Some (Inl TypeError)"
      using less.hyps d lt by blast
    then show ?thesis
      using less.prems(2) st1 by (subst bucketLoop.simps) simp
  next
    case False
    have "\<forall>j \<in> set [i..<i + bucketSize]. j < length vs \<longrightarrow>
        (\<exists>g. groupForValue (arrayAt vs (int j)) groups = Some g)"
      using assms(3) by simp
    moreover have "\<exists>j \<in> set [i..<i + bucketSize]. length vs \<le> j"
      using False less.prems(2) by (intro bexI [of _ "length vs"]) simp_all
    ultimately have "bucketInner vs groups [i..<i + bucketSize] ?start = Inl TypeError"
      using assms(4) by (rule bucketInner_overrun)
    then show ?thesis
      using less.prems(2) by (subst bucketLoop.simps) simp
  qed
qed

lemma calculateProject_overrun:
  assumes "projectsByStartYear env (startYear (h p)) = Some l"
    and "0 \<le> startYear (h p)" and "startYear (h p) < int (length (simulatedValues env))"
    and "startYear (h p) < int (length (noInterestReferenceLine env))"
    and "simulatedValues env ! nat (startYear (h p)) = map Num vs"
    and "n = length vs"
    and "0 < (n + 5) div 10" and "\<not> (n + 5) div 10 dvd n"
  shows "calculateProject engineSort h p env = Some (Inl TypeError)"
proof -
  let ?row = "map Num (sort vs)"
  let ?req = "requiredAmountLoop h p (totalAmount (h p)) l"
  let ?nir = "arrayAt (map Num (noInterestReferenceLine env)) (startYear (h p))"
  let ?groups = "createGroups ?req ?nir (env_liquidity env)"
  have row: "sortNumbers engineSort (simulatedValues env ! nat (startYear (h p))) = ?row"
    using assms(5) by (simp add: sortNumbers_Num)
  have len: "length ?row = n" using assms(6) by simp
  have found: "\<forall>j < length ?row. \<exists>g. groupForValue (arrayAt ?row (int j)) ?groups = Some g"
    by (simp add: arrayAt_Num_nth groupForValue_createGroups arrayAt_Num_not_NaN)
  have "nat (startYear (h p)) < length (noInterestReferenceLine env)"
    using assms(2,4) by linarith
  then have "?nir = Num (noInterestReferenceLine env ! nat (startYear (h p)))"
    using assms(2) arrayAt_Num_nth [of "nat (startYear (h p))" "noInterestReferenceLine env"]
    by simp
  then have undef: "groupForValue Undefined ?groups = None"
    by (simp add: groupForValue_def createGroups_def inBand_def)
  have nd: "\<not> (n + 5) div 10 dvd length ?row" using assms(8) len by simp
  have "0 < n" using assms(8) by (cases "n = 0") simp_all
  then have pos: "0 < length ?row" using len by simp
  have "bucketLoop ?row ?groups ((n + 5) div 10) 0 (\<lambda>name. 0) [] = Some (Inl TypeError)"
    by (rule bucketLoop_overrun [OF assms(7) nd found undef _ pos]) simp
  then show ?thesis
    using assms(1-3) assms(6) row
    by (simp add: calculateProject_def calculateRequiredAmount_def Let_def Math_round_div10)
qed


subsection \<open>Results of the synchronous driver\<close>

lemma createMonteCarloEnvironment_values:
  assumes "createMonteCarloEnvironment normal h options = Inr (env, arr)"
  shows "simulateOutcomes normal
           (projectsToCashFlows h (projectsByStartYear env) (numYears options))
           (investmentAmount options) options = Inr (simulatedValues env)"
  using assms by (auto simp: createMonteCarloEnvironment_def Let_def split: sum.splits)

lemma example_projects: "o_projects exampleOptions = Some [0, 1]"
  by (simp add: exampleOptions_def)

lemma example_years:
  "\<forall>p \<in> set [0, 1 :: nat]. 0 \<le> startYear (exampleStore p) \<and>
     startYear (exampleStore p) \<le> numYears (initializeOptions (Some exampleOptions))"
  by (simp add: exampleOptions_initialized exampleStore_def)

lemma example_numeric:
  "\<forall>row \<in> set (simulatedValues exampleEnvironment). \<forall>v \<in> set row. \<exists>x. v = Num x"
  by (auto simp: exampleEnvironment_def)

lemma example_returns:
  "\<exists>rs. syncMonteCarlo engineSort exampleNormal exampleStore (Some exampleOptions) = Some (Inr rs)"
proof -
  have n: "(5 :: nat) = nat (numRuns (initializeOptions (Some exampleOptions)))"
    by (simp add: exampleOptions_initialized)
  have b: "(5 :: nat) = 0 \<or> (0 < ((5 :: nat) + 5) div 10 \<and> ((5 :: nat) + 5) div 10 dvd (5 :: nat))"
    by simp
  show ?thesis
    by (rule syncMonteCarlo_returns
        [OF example_projects exampleEnvironment_built example_numeric example_years n b])
qed

lemma example_order:
  "map_option (map_sum id (map r_project))
     (syncMonteCarlo engineSort exampleNormal exampleStore (Some exampleOptions)) = Some (Inr [1, 0])"
proof -
  obtain rs where rs:
    "syncMonteCarlo engineSort exampleNormal exampleStore (Some exampleOptions) = Some (Inr rs)"
    using example_returns by blast
  have "map r_project rs = sort_key (\<lambda>p. startYear (exampleStore p)) [0, 1]"
    using example_projects rs by (rule syncMonteCarlo_projects)
  then have "map r_project rs = [1, 0]"
    by (simp only: example_sorted)
  then show ?thesis using rs by simp
qed

lemma example_without_projects:
  "syncMonteCarlo engineSort exampleNormal exampleStore
     (Some (exampleOptions\<lparr> o_projects := None \<rparr>)) = Some (Inl TypeError)"
proof -
  let ?none = "exampleOptions\<lparr> o_projects := None \<rparr>"
  have "validArrayLength (numYears (initializeOptions (Some ?none)))"
    "validArrayLength (numRuns (initializeOptions (Some ?none)))"
    by (simp_all add: initializeOptions_def exampleOptions_def validArrayLength_def)
  then obtain env arr where
    "createMonteCarloEnvironment exampleNormal exampleStore (initializeOptions (Some ?none)) =
       Inr (env, arr)"
    using createMonteCarloEnvironment_returns by blast
  then show ?thesis by (simp add: syncMonteCarlo_def)
qed

lemma example15_initialized:
  "numYears (initializeOptions (Some (exampleOptions\<lparr> o_numRuns := Some 15 \<rparr>))) = 2"
  "numRuns (initializeOptions (Some (exampleOptions\<lparr> o_numRuns := Some 15 \<rparr>))) = 15"
  "projects (initializeOptions (Some (exampleOptions\<lparr> o_numRuns := Some 15 \<rparr>))) = [0, 1]"
  "investmentAmount (initializeOptions (Some (exampleOptions\<lparr> o_numRuns := Some 15 \<rparr>))) = 1000000"
  by (simp_all add: initializeOptions_def exampleOptions_def)

lemma example15_simulateOutcomes:
  "simulateOutcomes exampleNormal [- 50000, - 30000] 1000000
     (initializeOptions (Some (exampleOptions\<lparr> o_numRuns := Some 15 \<rparr>))) =
   Inr [map Num [1000000, 1000000, 1000000, 1000000, 1000000, 1000000, 1000000, 1000000,
                 1000000, 1000000, 1000000, 1000000, 1000000, 1000000, 1000000],
        map Num [950000, 931000, 912000, 893000, 874000, 855000, 836000, 817000, 798000,
                 779000, 760000, 741000, 722000, 703000, 684000],
        map Num [910800, 873970, 837900, 802590, 768040, 734250, 701220, 668950, 637440,
                 606690, 576700, 547470, 519000, 491290, 464340]]"
  by code_simp

lemma example_overrun:
  "syncMonteCarlo engineSort exampleNormal exampleStore
     (Some (exampleOptions\<lparr> o_numRuns := Some 15 \<rparr>)) = Some (Inl TypeError)"
proof -
  let ?opts = "exampleOptions\<lparr> o_numRuns := Some 15 \<rparr>"
  let ?options = "initializeOptions (Some ?opts)"
  let ?key = "\<lambda>p. startYear (exampleStore p)"
  have prj: "o_projects ?opts = Some [0, 1]" by (simp add: exampleOptions_def)
  have "validArrayLength (numYears ?options)" "validArrayLength (numRuns ?options)"
    by (simp_all add: example15_initialized validArrayLength_def)
  then obtain env where built:
    "createMonteCarloEnvironment exampleNormal exampleStore ?options =
       Inr (env, sort_key ?key (projects ?options))"
    using createMonteCarloEnvironment_returns by blast
  note shape = createMonteCarloEnvironment_shape [OF built]
  have arr: "sort_key ?key (projects ?options) = [1, 0]"
    by (simp only: example15_initialized example_sorted)
  have dict: "projectsByStartYear env = groupBy [1, 0] ?key"
    using shape by (simp only: example15_initialized example_sorted)
  have vals: "simulatedValues env =
      [map Num [1000000, 1000000, 1000000, 1000000, 1000000, 1000000, 1000000, 1000000,
                 1000000, 1000000, 1000000, 1000000, 1000000, 1000000, 1000000],
        map Num [950000, 931000, 912000, 893000, 874000, 855000, 836000, 817000, 798000,
                 779000, 760000, 741000, 722000, 703000, 684000],
        map Num [910800, 873970, 837900, 802590, 768040, 734250, 701220, 668950, 637440,
                 606690, 576700, 547470, 519000, 491290, 464340]]"
    using createMonteCarloEnvironment_values [OF built]
    by (simp only: dict example15_initialized example_cashFlows example15_simulateOutcomes
        sum.inject)
  have line: "length (noInterestReferenceLine env) = 2"
    using shape by (simp add: example15_initialized)
  have "calculateProject engineSort exampleStore 1 env = Some (Inl TypeError)"
  proof (rule calculateProject_overrun [where l = "[1]" and n = 15 and
        vs = "[1000000, 1000000, 1000000, 1000000, 1000000, 1000000, 1000000, 1000000,
                 1000000, 1000000, 1000000, 1000000, 1000000, 1000000, 1000000]"])
    show "projectsByStartYear env (startYear (exampleStore 1)) = Some [1]"
      by (simp add: dict groupBy_apply exampleStore_def)
    show "0 \<le> startYear (exampleStore 1)" by (simp add: exampleStore_def)
    show "startYear (exampleStore 1) < int (length (simulatedValues env))"
      by (simp add: vals exampleStore_def)
    show "startYear (exampleStore 1) < int (length (noInterestReferenceLine env))"
      by (simp add: line exampleStore_def)
    show "simulatedValues env ! nat (startYear (exampleStore 1)) =
        map Num [1000000, 1000000, 1000000, 1000000, 1000000, 1000000, 1000000, 1000000,
                 1000000, 1000000, 1000000, 1000000, 1000000, 1000000, 1000000]"
      by (simp add: vals exampleStore_def)
    show "15 = length [1000000, 1000000, 1000000, 1000000, 1000000, 1000000, 1000000, 1000000,
                 1000000, 1000000, 1000000, 1000000, 1000000, 1000000, 1000000 :: real]"
      by simp
    show "0 < ((15 :: nat) + 5) div 10" by simp
    show "\<not> ((15 :: nat) + 5) div 10 dvd 15" by simp
  qed
  then have "calculateAll engineSort exampleStore [1, 0] env [] = Some (Inl TypeError)"
    by simp
  then show ?thesis
    using syncMonteCarlo_with_environment [OF prj built] arr by simp
qed

lemma syncMonteCarlo_default_volatility:
  "o_volatility opts = None \<Longrightarrow>
     syncMonteCarlo engineSort normal h (Some (opts\<lparr> o_volatility := Some (1 / 100) \<rparr>)) =
     syncMonteCarlo engineSort normal h (Some opts)"
proof -
  assume "o_volatility opts = None"
  then have "initializeOptions (Some (opts\<lparr> o_volatility := Some (1 / 100) \<rparr>)) =
      initializeOptions (Some opts)"
    by (simp add: initializeOptions_def)
  moreover have "Option.bind (Some (opts\<lparr> o_volatility := Some (1 / 100) \<rparr>)) o_projects =
      Option.bind (Some opts) o_projects"
    by simp
  ultimately show ?thesis by (simp only: syncMonteCarlo_def)
qed

text \<open>
  Claim C1 says that \<open>syncMonteCarlo\<close> returns, for every options value, one
  result per project in the original input order, and the empty list for zero
  projects. The driver departs from that on inputs it accepts, whatever the engine
  and with the example generator. For the example options with the volatility
  0.01 written out, whose projects \<open>[0, 1]\<close> are not in the order of their start
  years, the results come in the order \<open>[1, 0]\<close>: the driver runs over the array
  that \<open>createMonteCarloEnvironment\<close> has sorted in place. The same options
  without a \<open>projects\<close> property make the loop throw a TypeError, although
  initialization has put the default \<open>[]\<close> in place. With 15 runs the bucket size
  is 2, the inner bucket loop reads past the end of the slice, and \<open>group.name\<close>
  throws a TypeError.
\<close>

theorem C1_sync_driver_departures:
  "o_projects (exampleOptions\<lparr> o_volatility := Some (1 / 100) \<rparr>) = Some [0, 1] \<and>
   map_option (map_sum id (map r_project))
     (syncMonteCarlo engineSort exampleNormal exampleStore
        (Some (exampleOptions\<lparr> o_volatility := Some (1 / 100) \<rparr>))) =
     Some (Inr [1, 0]) \<and>
   syncMonteCarlo engineSort exampleNormal exampleStore
     (Some (exampleOptions\<lparr> o_projects := None, o_volatility := Some (1 / 100) \<rparr>)) =
     Some (Inl TypeError) \<and>
   syncMonteCarlo engineSort exampleNormal exampleStore
     (Some (exampleOptions\<lparr> o_numRuns := Some 15, o_volatility := Some (1 / 100) \<rparr>)) =
     Some (Inl TypeError)"
proof -
  have v: "o_volatility exampleOptions = None"
    "o_volatility (exampleOptions\<lparr> o_projects := None \<rparr>) = None"
    "o_volatility (exampleOptions\<lparr> o_numRuns := Some 15 \<rparr>) = None"
    by (simp_all add: exampleOptions_def)
  have "o_projects (exampleOptions\<lparr> o_volatility := Some (1 / 100) \<rparr>) = Some [0, 1]"
    using example_projects by simp
  then show ?thesis
    using example_order example_without_projects example_overrun
    by (simp only: syncMonteCarlo_default_volatility [OF v(1)]
        syncMonteCarlo_default_volatility [OF v(2)]
        syncMonteCarlo_default_volatility [OF v(3)] simp_thms)
qed

subsection \<open>Shape of the environment\<close>

lemma foldl_max_startYear:
  "foldl (\<lambda>memo project. max memo (startYear (h project))) a ps =
     Max (insert a ((\<lambda>p. startYear (h p)) ` set ps))"
proof (induction ps arbitrary: a)
  case Nil
  show ?case by simp
next
  case (Cons p ps)
  have "Max (insert (max a (startYear (h p))) ((\<lambda>p. startYear (h p)) ` set ps)) =
        Max (insert a (insert (startYear (h p)) ((\<lambda>p. startYear (h p)) ` set ps)))"
    by (cases "set ps = {}") (simp_all add: max.assoc)
  then show ?case using Cons.IH [of "max a (startYear (h p))"] by simp
qed

text \<open>
  Claim C10, as amended. Every environment built by \<open>createMonteCarloEnvironment\<close>
  has this shape with respect to the options it is built from: the cash flows and
  the reference line have \<open>options.numYears\<close> entries, \<open>simulatedValues\<close> has
  \<open>options.numYears + 1\<close> rows, and every row holds \<open>numRuns\<close> entries, where the
  environment's \<open>numRuns\<close> is \<open>options.numRuns\<close>. The environment's own \<open>numYears\<close>
  field is something else: the largest start year of the projects to simulate (0
  when there is none), which are all projects or, with a worker partition, the
  worker's slice of them.
\<close>

theorem C10_environment_shape:
  assumes "createMonteCarloEnvironment normal h options = Inr (env, arr)"
  shows "length (projectsToCashFlows h (projectsByStartYear env) (numYears options)) =
           nat (numYears options) \<and>
         length (noInterestReferenceLine env) = nat (numYears options) \<and>
         length (simulatedValues env) = nat (numYears options) + 1 \<and>
         (\<forall>row \<in> set (simulatedValues env). int (length row) = env_numRuns env) \<and>
         env_numRuns env = numRuns options \<and> 0 \<le> numYears options \<and>
         (taskIndex options = None \<longrightarrow>
            env_numYears env = Max (insert 0 ((\<lambda>p. startYear (h p)) ` set (projects options)))) \<and>
         env_numYears env =
           Max (insert 0 ((\<lambda>p. startYear (h p)) ` set
             (case (taskIndex options, valuesPerWorker options) of
                (Some t, Some v) \<Rightarrow>
                  if t \<noteq> 0 \<and> v \<noteq> 0 then take v (drop (t * v) (projects options))
                  else projects options
              | _ \<Rightarrow> projects options)))"
proof -
  note shape = createMonteCarloEnvironment_shape [OF assms]
  let ?sorted = "sort_key (\<lambda>p. startYear (h p)) (projects options)"
  have e: "env_numYears env =
          foldl (\<lambda>memo project. max memo (startYear (h project))) 0
            (case (taskIndex options, valuesPerWorker options) of
               (Some t, Some v) \<Rightarrow>
                 if t \<noteq> 0 \<and> v \<noteq> 0
                 then take ((t + 1) * v - t * v) (drop (t * v) (projects options))
                 else ?sorted
             | _ \<Rightarrow> ?sorted)"
    using assms
    by (auto simp: createMonteCarloEnvironment_def Let_def split: sum.splits)
  have general: "env_numYears env =
      Max (insert 0 ((\<lambda>p. startYear (h p)) ` set
        (case (taskIndex options, valuesPerWorker options) of
           (Some t, Some v) \<Rightarrow>
             if t \<noteq> 0 \<and> v \<noteq> 0 then take v (drop (t * v) (projects options))
             else projects options
         | _ \<Rightarrow> projects options)))"
  proof (cases "taskIndex options")
    case None
    then show ?thesis using e by (simp add: foldl_max_startYear)
  next
    case (Some t)
    show ?thesis
    proof (cases "valuesPerWorker options")
      case None
      then show ?thesis using e Some by (simp add: foldl_max_startYear)
    next
      case (Some v)
      then show ?thesis using e \<open>taskIndex options = Some t\<close>
        by (simp add: foldl_max_startYear)
    qed
  qed
  then have "env_numYears env = Max (insert 0 ((\<lambda>p. startYear (h p)) ` set (projects options)))"
    if "taskIndex options = None"
    using that by simp
  then show ?thesis
    using shape general by (simp add: validArrayLength_def)
qed

theorem C10_environment_shape_witness:
  "length (noInterestReferenceLine exampleEnvironment) = 2 \<and>
   length (simulatedValues exampleEnvironment) = 3 \<and>
   map length (simulatedValues exampleEnvironment) = [5, 5, 5] \<and>
   env_numYears exampleEnvironment = 1"
  using C10_environment_shape [OF exampleEnvironment_built]
  by (simp add: exampleOptions_initialized exampleEnvironment_def)

text \<open>
  Claim C10 as stated relates the lengths to the environment's own \<open>numYears\<close>
  field. In the environment built from the example options that field is 1, while
  \<open>simulatedValues\<close> has 3 rows and the reference line 2 entries.
\<close>

theorem C10_own_numYears_counterexample:
  "createMonteCarloEnvironment exampleNormal exampleStore (initializeOptions (Some exampleOptions)) =
     Inr (exampleEnvironment, [1, 0]) \<and>
   env_numYears exampleEnvironment = 1 \<and>
   length (simulatedValues exampleEnvironment) = 3 \<and>
   length (noInterestReferenceLine exampleEnvironment) = 2"
  using exampleEnvironment_built by (simp add: exampleEnvironment_def)

subsection \<open>A slice with a single value\<close>

text \<open>
  Claim C3 says that \<open>calculateProject\<close> terminates for \<open>numRuns = 1\<close>. With a
  single simulated value the bucket size \<open>Math.round(1 / 10)\<close> is 0, the outer loop
  never advances, and neither \<open>calculateProject\<close> nor the driver returns: shown here
  for the example options with \<open>numRuns = 1\<close> and for the environment with the
  single-value rows that they lead to, whatever the engine.
\<close>

theorem C3_single_run_never_returns:
  "syncMonteCarlo engineSort exampleNormal exampleStore (Some (exampleOptions\<lparr> o_numRuns := Some 1 \<rparr>)) = None \<and>
   calculateProject engineSort exampleStore 0
     (exampleEnvironment\<lparr> env_numRuns := 1,
        simulatedValues := [[Num 1000000], [Num 950000], [Num 910800]] \<rparr>) = None"
proof -
  let ?opts = "exampleOptions\<lparr> o_numRuns := Some 1 \<rparr>"
  have init: "numYears (initializeOptions (Some ?opts)) = 2"
    "numRuns (initializeOptions (Some ?opts)) = 1"
    by (simp_all add: initializeOptions_def exampleOptions_def)
  have "syncMonteCarlo engineSort exampleNormal exampleStore (Some ?opts) = None"
  proof (rule syncMonteCarlo_diverges [where ps = "[0, 1]"])
    show "o_projects ?opts = Some [0, 1]" by (simp add: exampleOptions_def)
    show "[0, 1 :: nat] \<noteq> []" by simp
    show "validArrayLength (numYears (initializeOptions (Some ?opts)))"
      by (simp add: init validArrayLength_def)
    show "0 < numRuns (initializeOptions (Some ?opts))" by (simp add: init)
    show "numRuns (initializeOptions (Some ?opts)) < 5" by (simp add: init)
    show "\<forall>p \<in> set [0, 1]. 0 \<le> startYear (exampleStore p) \<and>
        startYear (exampleStore p) \<le> numYears (initializeOptions (Some ?opts))"
      by (simp add: init exampleStore_def)
  qed
  moreover have "calculateProject engineSort exampleStore 0
     (exampleEnvironment\<lparr> env_numRuns := 1,
        simulatedValues := [[Num 1000000], [Num 950000], [Num 910800]] \<rparr>) = None"
  proof (rule calculateProject_diverges [where l = "[0]" and n = 1])
    let ?env = "exampleEnvironment\<lparr> env_numRuns := 1,
        simulatedValues := [[Num 1000000], [Num 950000], [Num 910800]] \<rparr>"
    show "projectsByStartYear ?env (startYear (exampleStore 0)) = Some [0]"
      by (simp add: exampleEnvironment_def groupBy_apply exampleStore_def)
    show "0 \<le> startYear (exampleStore 0)" by (simp add: exampleStore_def)
    show "startYear (exampleStore 0) < int (length (simulatedValues ?env))"
      by (simp add: exampleStore_def)
    show "1 = length (simulatedValues ?env ! nat (startYear (exampleStore 0)))"
      by (simp add: exampleStore_def)
    show "0 < (1 :: nat)" by simp
    show "(1 :: nat) < 5" by simp
  qed
  ultimately show ?thesis by simp
qed

section \<open>Invalid options\<close>

text \<open>
  Claim C7, as amended. Options initialization checks nothing and raises no error;
  what happens to an invalid options value is decided later. A negative
  \<open>numYears\<close> or \<open>numRuns\<close> raises a RangeError while the environment is built
  (in \<open>simulateOutcomes\<close>), and a project whose \<open>startYear\<close> is negative or greater
  than \<open>numYears\<close> keeps the driver from returning a result list: no simulation
  output is produced in these cases. A missing \<open>volatility\<close> is not an error: the
  run is the run with \<open>volatility = 0.01\<close>.
\<close>

theorem C7_invalid_options:
  assumes "ny = numYears (initializeOptions (Some opts))"
    and "nr = numRuns (initializeOptions (Some opts))"
  shows "(ny < 0 \<or> nr < 0 \<longrightarrow>
            syncMonteCarlo engineSort normal h (Some opts) = Some (Inl RangeError)) \<and>
         (o_projects opts = Some ps \<and> (\<exists>p \<in> set ps. startYear (h p) < 0 \<or> ny < startYear (h p)) \<longrightarrow>
            (\<forall>rs. syncMonteCarlo engineSort normal h (Some opts) \<noteq> Some (Inr rs))) \<and>
         (o_volatility opts = None \<longrightarrow>
            syncMonteCarlo engineSort normal h (Some opts) =
            syncMonteCarlo engineSort normal h (Some (opts\<lparr> o_volatility := Some (1 / 100) \<rparr>)))"
proof -
  have a: "syncMonteCarlo engineSort normal h (Some opts) = Some (Inl RangeError)" if "ny < 0 \<or> nr < 0"
  proof (rule syncMonteCarlo_RangeError)
    show "\<not> validArrayLength (numYears (initializeOptions (Some opts))) \<or>
          \<not> validArrayLength (numRuns (initializeOptions (Some opts)))"
      using that assms by (auto simp: validArrayLength_def)
  qed
  have b: "syncMonteCarlo engineSort normal h (Some opts) \<noteq> Some (Inr rs)"
    if "o_projects opts = Some ps"
      and "\<exists>p \<in> set ps. startYear (h p) < 0 \<or> ny < startYear (h p)" for rs
    using that assms(1) syncMonteCarlo_out_of_range [of opts ps h engineSort normal rs] by simp
  have c: "syncMonteCarlo engineSort normal h (Some opts) =
           syncMonteCarlo engineSort normal h (Some (opts\<lparr> o_volatility := Some (1 / 100) \<rparr>))"
    if "o_volatility opts = None"
  proof -
    have e1: "initializeOptions (Some (opts\<lparr> o_volatility := Some (1 / 100) \<rparr>)) =
              initializeOptions (Some opts)"
      using that by (simp add: initializeOptions_def)
    have e2: "Option.bind (Some (opts\<lparr> o_volatility := Some (1 / 100) \<rparr>)) o_projects =
              Option.bind (Some opts) o_projects"
      by simp
    show ?thesis unfolding syncMonteCarlo_def e1 e2 by (rule refl)
  qed
  show ?thesis using a b c by blast
qed

theorem C7_invalid_options_witness:
  "syncMonteCarlo exampleEngineSort exampleNormal exampleStore (Some (exampleOptions\<lparr> o_numRuns := Some (- 1) \<rparr>)) =
     Some (Inl RangeError) \<and>
   (\<forall>rs. syncMonteCarlo exampleEngineSort exampleNormal exampleStore (Some (exampleOptions\<lparr> o_numYears := Some 0 \<rparr>)) \<noteq>
     Some (Inr rs)) \<and>
   syncMonteCarlo exampleEngineSort exampleNormal exampleStore (Some exampleOptions) =
     syncMonteCarlo exampleEngineSort exampleNormal exampleStore (Some (exampleOptions\<lparr> o_volatility := Some (1 / 100) \<rparr>))"
proof -
  have 1: "syncMonteCarlo exampleEngineSort exampleNormal exampleStore
      (Some (exampleOptions\<lparr> o_numRuns := Some (- 1) \<rparr>)) = Some (Inl RangeError)"
    using C7_invalid_options [where opts = "exampleOptions\<lparr> o_numRuns := Some (- 1) \<rparr>"
        and h = exampleStore and normal = exampleNormal
        and engineSort = exampleEngineSort, OF refl refl]
    by (simp add: initializeOptions_def exampleOptions_def)
  have "o_projects (exampleOptions\<lparr> o_numYears := Some 0 \<rparr>) = Some [0, 1] \<and>
        (\<exists>p \<in> set [0, 1 :: nat]. startYear (exampleStore p) < 0 \<or>
           numYears (initializeOptions (Some (exampleOptions\<lparr> o_numYears := Some 0 \<rparr>)))
             < startYear (exampleStore p))"
    by (simp add: initializeOptions_def exampleOptions_def exampleStore_def)
  then have 2: "\<forall>rs. syncMonteCarlo exampleEngineSort exampleNormal exampleStore
      (Some (exampleOptions\<lparr> o_numYears := Some 0 \<rparr>)) \<noteq> Some (Inr rs)"
    using C7_invalid_options [where opts = "exampleOptions\<lparr> o_numYears := Some 0 \<rparr>"
        and ps = "[0, 1]" and h = exampleStore and normal = exampleNormal
        and engineSort = exampleEngineSort, OF refl refl]
    by blast
  have "o_volatility exampleOptions = None" by (simp add: exampleOptions_def)
  then have 3: "syncMonteCarlo exampleEngineSort exampleNormal exampleStore (Some exampleOptions) =
     syncMonteCarlo exampleEngineSort exampleNormal exampleStore (Some (exampleOptions\<lparr> o_volatility := Some (1 / 100) \<rparr>))"
    using C7_invalid_options [where opts = exampleOptions
        and h = exampleStore and normal = exampleNormal
        and engineSort = exampleEngineSort, OF refl refl]
    by blast
  show ?thesis using 1 2 3 by blast
qed

text \<open>
  Claim C7 as stated says that a missing \<open>volatility\<close> raises an error at
  initialization and that no output is produced. The example options have no
  \<open>volatility\<close>, and the driver returns two results for them.
\<close>

theorem C7_missing_volatility_counterexample:
  "o_volatility exampleOptions = None \<and>
   map_option (map_sum id length)
     (syncMonteCarlo exampleEngineSort exampleNormal exampleStore (Some exampleOptions)) = Some (Inr 2)"
proof -
  obtain rs where rs: "syncMonteCarlo exampleEngineSort exampleNormal exampleStore (Some exampleOptions) = Some (Inr rs)"
    using example_returns by blast
  have "map r_project rs = sort_key (\<lambda>p. startYear (exampleStore p)) [0, 1]"
    using example_projects rs by (rule syncMonteCarlo_projects)
  then have "length (map r_project rs) = length (sort_key (\<lambda>p. startYear (exampleStore p)) [0, 1 :: nat])"
    by (rule arg_cong)
  then have "length rs = 2" by (simp del: sort_key_simps)
  then show ?thesis using rs by (simp add: exampleOptions_def)
qed

section \<open>Frame of the aggregation\<close>

lemma example_project_returns:
  "\<exists>r env1. calculateProject engineSort exampleStore 0 exampleEnvironment = Some (Inr (r, env1))"
proof (rule calculateProject_returns [where l = "[0]" and n = 5
      and vs = "[950000, 931000, 912000, 893000, 874000]"])
  show "projectsByStartYear exampleEnvironment (startYear (exampleStore 0)) = Some [0]"
    by (simp add: exampleEnvironment_def groupBy_apply exampleStore_def)
  show "0 \<le> startYear (exampleStore 0)" by (simp add: exampleStore_def)
  show "startYear (exampleStore 0) < int (length (simulatedValues exampleEnvironment))"
    by (simp add: exampleStore_def exampleEnvironment_def)
  show "simulatedValues exampleEnvironment ! nat (startYear (exampleStore 0)) =
      map Num [950000, 931000, 912000, 893000, 874000]"
    by (simp add: exampleStore_def exampleEnvironment_def)
  show "5 = length [950000, 931000, 912000, 893000, 874000 :: real]"
    by simp
  show "(5 :: nat) = 0 \<or> (0 < ((5 :: nat) + 5) div 10 \<and> ((5 :: nat) + 5) div 10 dvd (5 :: nat))"
    by simp
qed

lemma example_row:
  "simulatedValues exampleEnvironment ! nat (startYear (exampleStore 0)) =
     map Num [950000, 931000, 912000, 893000, 874000]"
  by (simp add: exampleStore_def exampleEnvironment_def)

lemma example_row_sorted:
  "sort [950000, 931000, 912000, 893000, 874000 :: real] =
     [874000, 893000, 912000, 931000, 950000]"
  by simp

text \<open>
  Claim C8, as amended. \<open>calculateProject\<close> changes the environment in one place
  only: the row \<open>simulatedValues[startYear]\<close> of its project is replaced by its
  sort (the same values; for a row of real numbers their ascending order, and the
  environment unchanged when the row is already in that order); every other row
  and every other field stays as it is. \<open>createMonteCarloEnvironment\<close> leaves the
  caller's projects array holding the same projects, sorted stably by \<open>startYear\<close>
  (unchanged when it is already sorted).
\<close>

theorem C8_frame:
  "(calculateProject engineSort h p env = Some (Inr (r, env1)) \<longrightarrow>
      env1 = env\<lparr> simulatedValues := (simulatedValues env)
               [nat (startYear (h p)) :=
                  sortNumbers engineSort (simulatedValues env ! nat (startYear (h p)))] \<rparr> \<and>
      mset (simulatedValues env1 ! nat (startYear (h p))) =
        mset (simulatedValues env ! nat (startYear (h p))) \<and>
      (\<forall>vs. simulatedValues env ! nat (startYear (h p)) = map Num vs \<longrightarrow>
         env1 = env\<lparr> simulatedValues := (simulatedValues env)
                  [nat (startYear (h p)) := map Num (sort vs)] \<rparr> \<and>
         (sorted vs \<longrightarrow> env1 = env))) \<and>
   (createMonteCarloEnvironment normal h options = Inr (environment, arr) \<longrightarrow>
      arr = sort_key (\<lambda>p. startYear (h p)) (projects options) \<and>
      mset arr = mset (projects options) \<and>
      (sorted (map (\<lambda>p. startYear (h p)) (projects options)) \<longrightarrow> arr = projects options))"
proof -
  let ?k = "nat (startYear (h p))"
  let ?sv = "simulatedValues env"
  have a: "env1 = env\<lparr> simulatedValues := ?sv[?k := sortNumbers engineSort (?sv ! ?k)] \<rparr> \<and>
           mset (simulatedValues env1 ! ?k) = mset (?sv ! ?k) \<and>
           (\<forall>vs. ?sv ! ?k = map Num vs \<longrightarrow>
              env1 = env\<lparr> simulatedValues := ?sv[?k := map Num (sort vs)] \<rparr> \<and>
              (sorted vs \<longrightarrow> env1 = env))"
    if ret: "calculateProject engineSort h p env = Some (Inr (r, env1))"
  proof -
    note res = calculateProject_result [OF ret refl]
    have env1: "env1 = env\<lparr> simulatedValues := ?sv[?k := sortNumbers engineSort (?sv ! ?k)] \<rparr>"
      using res by simp
    from res have "0 \<le> startYear (h p)" "startYear (h p) < int (length ?sv)"
      by simp_all
    then have k: "?k < length ?sv" by linarith
    then have "simulatedValues env1 ! ?k = sortNumbers engineSort (?sv ! ?k)"
      using env1 by simp
    then have m: "mset (simulatedValues env1 ! ?k) = mset (?sv ! ?k)"
      by (simp add: mset_sortNumbers)
    have n: "env1 = env\<lparr> simulatedValues := ?sv[?k := map Num (sort vs)] \<rparr> \<and>
             (sorted vs \<longrightarrow> env1 = env)"
      if row: "?sv ! ?k = map Num vs" for vs
    proof -
      have s: "sortNumbers engineSort (?sv ! ?k) = map Num (sort vs)"
        unfolding row by (rule sortNumbers_Num)
      have e: "env1 = env\<lparr> simulatedValues := ?sv[?k := map Num (sort vs)] \<rparr>"
        using env1 s by simp
      have "env1 = env" if "sorted vs"
      proof -
        have "sort vs = vs" using that by (rule sort_key_id_if_sorted [of "\<lambda>x. x", simplified])
        then have "?sv[?k := map Num (sort vs)] = ?sv"
          using row by (simp add: list_update_same_conv k)
        then show ?thesis using e by simp
      qed
      then show ?thesis using e by blast
    qed
    show ?thesis using env1 m n by blast
  qed
  have b: "arr = sort_key (\<lambda>p. startYear (h p)) (projects options) \<and>
           mset arr = mset (projects options) \<and>
           (sorted (map (\<lambda>p. startYear (h p)) (projects options)) \<longrightarrow> arr = projects options)"
    if built: "createMonteCarloEnvironment normal h options = Inr (environment, arr)"
  proof -
    have "arr = sort_key (\<lambda>p. startYear (h p)) (projects options)"
      using createMonteCarloEnvironment_shape [OF built] by simp
    then show ?thesis by (simp add: sort_key_id_if_sorted)
  qed
  show ?thesis using a b by blast
qed

theorem C8_frame_witness:
  "(\<exists>r env1. calculateProject exampleEngineSort exampleStore 0 exampleEnvironment =
        Some (Inr (r, env1)) \<and>
      simulatedValues env1 =
        [map Num [1000000, 1000000, 1000000, 1000000, 1000000],
         map Num [874000, 893000, 912000, 931000, 950000],
         map Num [910800, 873970, 837900, 802590, 768040]] \<and>
      noInterestReferenceLine env1 = [950000, 920000]) \<and>
   mset [1, 0 :: nat] = mset (projects (initializeOptions (Some exampleOptions)))"
proof -
  obtain r env1 where ret:
    "calculateProject exampleEngineSort exampleStore 0 exampleEnvironment = Some (Inr (r, env1))"
    using example_project_returns by blast
  have "env1 = exampleEnvironment\<lparr> simulatedValues := (simulatedValues exampleEnvironment)
      [nat (startYear (exampleStore 0)) :=
         map Num (sort [950000, 931000, 912000, 893000, 874000])] \<rparr>"
    using C8_frame [where h = exampleStore and p = 0 and env = exampleEnvironment
        and r = r and ?env1.0 = env1 and engineSort = exampleEngineSort] ret example_row
    by blast
  then have "env1 = exampleEnvironment\<lparr> simulatedValues := (simulatedValues exampleEnvironment)
      [nat (startYear (exampleStore 0)) := map Num [874000, 893000, 912000, 931000, 950000]] \<rparr>"
    by (simp only: example_row_sorted)
  then have "simulatedValues env1 =
        [map Num [1000000, 1000000, 1000000, 1000000, 1000000],
         map Num [874000, 893000, 912000, 931000, 950000],
         map Num [910800, 873970, 837900, 802590, 768040]] \<and>
      noInterestReferenceLine env1 = [950000, 920000]"
    by (simp add: exampleEnvironment_def exampleStore_def)
  with ret have 1: "\<exists>r env1. calculateProject exampleEngineSort exampleStore 0 exampleEnvironment =
        Some (Inr (r, env1)) \<and>
      simulatedValues env1 =
        [map Num [1000000, 1000000, 1000000, 1000000, 1000000],
         map Num [874000, 893000, 912000, 931000, 950000],
         map Num [910800, 873970, 837900, 802590, 768040]] \<and>
      noInterestReferenceLine env1 = [950000, 920000]"
    by blast
  have 2: "mset [1, 0 :: nat] = mset (projects (initializeOptions (Some exampleOptions)))"
    using C8_frame [where h = exampleStore and normal = exampleNormal
        and options = "initializeOptions (Some exampleOptions)"
        and environment = exampleEnvironment and arr = "[1, 0]"]
      exampleEnvironment_built
    by blast
  show ?thesis using 1 2 by blast
qed

text \<open>
  Claim C8 as stated says that both calls leave their arguments unchanged. Building
  the environment for the example options turns the projects array \<open>[0, 1]\<close> into
  \<open>[1, 0]\<close>, and \<open>calculateProject\<close> for project 0 turns row 1 of
  \<open>simulatedValues\<close>, which is descending, into its ascending sort.
\<close>

theorem C8_in_place_sort_counterexample:
  "createMonteCarloEnvironment exampleNormal exampleStore (initializeOptions (Some exampleOptions)) =
     Inr (exampleEnvironment, [1, 0]) \<and>
   projects (initializeOptions (Some exampleOptions)) = [0, 1] \<and>
   simulatedValues exampleEnvironment ! 1 = map Num [950000, 931000, 912000, 893000, 874000] \<and>
   map_option (map_sum id (\<lambda>x. simulatedValues (snd x) ! 1))
     (calculateProject exampleEngineSort exampleStore 0 exampleEnvironment) =
     Some (Inr (map Num [874000, 893000, 912000, 931000, 950000]))"
proof -
  obtain r env1 where ret:
    "calculateProject exampleEngineSort exampleStore 0 exampleEnvironment = Some (Inr (r, env1))"
    using example_project_returns by blast
  have "env1 = exampleEnvironment\<lparr> simulatedValues := (simulatedValues exampleEnvironment)
      [nat (startYear (exampleStore 0)) :=
         sortNumbers exampleEngineSort
           (simulatedValues exampleEnvironment ! nat (startYear (exampleStore 0)))] \<rparr>"
    using calculateProject_result [OF ret refl] by simp
  then have "env1 = exampleEnvironment\<lparr> simulatedValues := (simulatedValues exampleEnvironment)
      [nat (startYear (exampleStore 0)) := map Num [874000, 893000, 912000, 931000, 950000]] \<rparr>"
    by (simp only: example_row sortNumbers_Num example_row_sorted)
  then have "simulatedValues env1 ! 1 = map Num [874000, 893000, 912000, 931000, 950000]"
    by (simp add: exampleEnvironment_def exampleStore_def)
  then show ?thesis
    using ret exampleEnvironment_built
    by (simp add: exampleOptions_initialized exampleEnvironment_def)
qed

section \<open>Summary statistics\<close>




















end
